theory Spec2Isabelle
  imports Main
begin

section \<open>Python values, responses and exceptions\<close>

text \<open>
  The request layer of \<^verbatim>\<open>divio_cli/api_requests.py\<close>. Decoded JSON bodies, keyword
  arguments and payloads are Python values; a \<open>dict\<close> is an association list in
  insertion order (its keys are distinct in Python). A float is kept as mantissa and
  exponent: the code never computes with one.
\<close>

datatype pyval =
    PNone
  | PBool bool
  | PInt int
  | PFloat int int
  | PStr string
  | PList "pyval list"
  | PDict "(string \<times> pyval) list"

type_synonym bytes = string

text \<open>
  What the \<^verbatim>\<open>requests\<close> library hands back: \<open>r_text\<close> is \<^verbatim>\<open>response.text\<close>,
  \<open>r_json\<close> is \<^verbatim>\<open>response.json()\<close> (\<open>None\<close> when decoding raises), and
  \<open>iter_content n\<close> is the chunk sequence \<^verbatim>\<open>response.iter_content(chunk_size=n)\<close> yields.
\<close>

record response =
  status_code :: nat
  r_text :: string
  r_json :: "pyval option"
  iter_content :: "nat \<Rightarrow> bytes list"

text \<open>
  \<^verbatim>\<open>Response.ok\<close> of the library: \<^verbatim>\<open>raise_for_status()\<close> raises exactly for
  \<open>400 \<le> status_code < 600\<close>, and \<open>ok\<close> is true when it does not raise.
\<close>

definition ok :: "response \<Rightarrow> bool" where
  "ok r = (\<not> (400 \<le> status_code r \<and> status_code r < 600))"

datatype exn =
    APIRequestError string
  | ClickException string
  | ConnectionError string
  | Timeout string
  | JSONDecodeError
  | KeyError
  | TypeError
  | AttributeError
  | OSError

datatype result =
    RJson pyval
  | RText string
  | RRaw response
  | RPath string
  | RMessage string

section \<open>Messages and external collaborators\<close>

text \<open>
  The module \<^verbatim>\<open>messages\<close> is not part of the sources read here: its constants are
  parameters. \<open>RESOURCE_NOT_FOUND login\<close> stands for
  \<^verbatim>\<open>messages.RESOURCE_NOT_FOUND.format(login=login)\<close>.
\<close>

record messages =
  NETWORK_ERROR_MESSAGE :: string
  SERVER_ERROR :: string
  AUTH_SERVER_ERROR :: string
  AUTH_INVALID_TOKEN :: string
  RESOURCE_NOT_FOUND_ANONYMOUS :: string
  RESOURCE_NOT_FOUND :: "string \<Rightarrow> string"
  BAD_REQUEST :: string

record session =
  host :: string
  debug :: bool
  proxies :: "(string \<times> string) list"
  attrs :: "string \<rightharpoonup> pyval"

text \<open>
  The object bound to \<^verbatim>\<open>self.session\<close>: a \<^verbatim>\<open>SingleHostSession\<close>, or the
  \<^verbatim>\<open>requests\<close> module itself, which \<^verbatim>\<open>FinishBackupUploadRequest.__init__\<close> puts in its
  place and which has no attribute \<^verbatim>\<open>host\<close> or \<^verbatim>\<open>debug\<close>.
\<close>

datatype client = HostSession session | RequestsModule

record http_call =
  c_method :: string
  c_url :: string
  c_kwargs :: "string \<rightharpoonup> pyval"

text \<open>
  Library and helper functions the code calls: \<open>urljoin\<close>, the host name
  \<^verbatim>\<open>urlparse(h).hostname\<close>, the stored credentials \<^verbatim>\<open>WritableNetRC().hosts\<close>
  (login, account, password), Python's \<^verbatim>\<open>str()\<close> on a value that is not a string,
  \<^verbatim>\<open>str.format(**kwargs)\<close> on a URL template, \<^verbatim>\<open>os.path.join\<close>, the name of the
  n-th directory \<^verbatim>\<open>create_temp_dir()\<close> makes, whether \<^verbatim>\<open>open(path, "wb")\<close>
  succeeds, \<^verbatim>\<open>get_user_agent()\<close>, the transport \<^verbatim>\<open>requests.Session.request\<close> of a
  session, and the transport of \<^verbatim>\<open>requests.request\<close>, which uses a session of its own.
\<close>

record world =
  msgs :: messages
  urljoin :: "string \<Rightarrow> string \<Rightarrow> string"
  hostname :: "string \<Rightarrow> string option"
  netrc_hosts :: "string \<rightharpoonup> (string \<times> string option \<times> string)"
  str_of :: "pyval \<Rightarrow> string"
  format_url :: "string \<Rightarrow> (string \<times> pyval) list \<Rightarrow> exn + string"
  path_join :: "string \<Rightarrow> string \<Rightarrow> string"
  temp_dir_name :: "nat \<Rightarrow> string"
  can_open :: "string \<Rightarrow> bool"
  user_agent :: string
  send :: "session \<Rightarrow> http_call \<Rightarrow> exn + response"
  send_plain :: "http_call \<Rightarrow> exn + response"

section \<open>Program state\<close>

datatype event =
    CallProcess
  | CreateTempDir
  | FOpen string
  | FWrite bytes
  | FFlush
  | FClose

text \<open>
  \<open>response_code_error_map\<close> is the one dictionary object bound to the class attribute
  \<^verbatim>\<open>APIRequest.response_code_error_map\<close>: no subclass and no instance rebinds it, so
  every request instance reads and writes this object. \<open>heap\<close> holds the header
  dictionaries by address, \<open>files\<close> the file system, \<open>buffer\<close> the unflushed bytes of
  the file being written, \<open>trace\<close> the calls observed.
\<close>

record state =
  response_code_error_map :: "nat \<rightharpoonup> string"
  heap :: "nat \<Rightarrow> (string \<times> string) list"
  next_addr :: nat
  files :: "string \<rightharpoonup> bytes"
  buffer :: bytes
  temp_dirs_created :: nat
  trace :: "event list"

definition initial_response_code_error_map :: "messages \<Rightarrow> nat \<rightharpoonup> string" where
  "initial_response_code_error_map m =
     [403 \<mapsto> AUTH_INVALID_TOKEN m,
      401 \<mapsto> AUTH_INVALID_TOKEN m,
      404 \<mapsto> RESOURCE_NOT_FOUND_ANONYMOUS m,
      400 \<mapsto> BAD_REQUEST m]"

section \<open>Request definitions\<close>

datatype strategy =
    DefaultProcess
  | RawResponse
  | TextResponse
  | JsonResponse
  | FileResponse
  | SlugToID

text \<open>
  A request instance with the attributes of its class: \<open>django_form_mixin\<close> says that
  \<^verbatim>\<open>DjangoFormMixin\<close> comes first in the bases, \<open>v3\<close> that the class derives from
  \<^verbatim>\<open>APIV3Request\<close>; \<open>default_headers\<close> and \<open>headers\<close> are the addresses of the
  class-level dictionaries. Requests are called with keyword arguments only.
\<close>

record api_request =
  session :: client
  django_form_mixin :: bool
  strategy :: strategy
  v3 :: bool
  http_method :: string
  url :: "string option"
  url_kwargs :: "(string \<times> pyval) list"
  params :: pyval
  data :: pyval
  files_arg :: pyval
  default_headers :: nat
  headers :: nat
  default_error_message :: string
  success_message :: string
  filename :: "string option"
  directory :: "string option"

section \<open>Python primitives\<close>

fun py_getitem :: "pyval \<Rightarrow> string \<Rightarrow> exn + pyval" where
  "py_getitem (PDict kvs) k = (case map_of kvs k of None \<Rightarrow> Inl KeyError | Some v \<Rightarrow> Inr v)"
| "py_getitem _ k = Inl TypeError"

fun py_iter :: "pyval \<Rightarrow> exn + pyval list" where
  "py_iter (PList xs) = Inr xs"
| "py_iter (PStr s) = Inr (map (\<lambda>c. PStr [c]) s)"
| "py_iter (PDict kvs) = Inr (map (\<lambda>kv. PStr (fst kv)) kvs)"
| "py_iter _ = Inl TypeError"

fun join :: "string \<Rightarrow> string list \<Rightarrow> string" where
  "join sep [] = []"
| "join sep [x] = x"
| "join sep (x # y # ys) = x @ sep @ join sep (y # ys)"

fun as_strs :: "pyval list \<Rightarrow> string list option" where
  "as_strs [] = Some []"
| "as_strs (PStr s # vs) = (case as_strs vs of None \<Rightarrow> None | Some ss \<Rightarrow> Some (s # ss))"
| "as_strs (_ # vs) = None"

definition py_join :: "string \<Rightarrow> pyval list \<Rightarrow> exn + string" where
  "py_join sep vs = (case as_strs vs of None \<Rightarrow> Inl TypeError | Some ss \<Rightarrow> Inr (join sep ss))"

definition py_format :: "world \<Rightarrow> pyval \<Rightarrow> string" where
  "py_format w v = (case v of PStr s \<Rightarrow> s | _ \<Rightarrow> str_of w v)"

definition strip_nl :: "string \<Rightarrow> string" where
  "strip_nl s =
     rev (dropWhile (\<lambda>c. c = CHR ''\<newline>'') (rev (dropWhile (\<lambda>c. c = CHR ''\<newline>'') s)))"

text \<open>\<^verbatim>\<open>"{}\n\n{}".format(a, b)\<close>\<close>

definition fmt2 :: "string \<Rightarrow> string \<Rightarrow> string" where
  "fmt2 a b = a @ ''\<newline>\<newline>'' @ b"

section \<open>Error classification\<close>

text \<open>
  \<^verbatim>\<open>get_login\<close>: the login stored for the session's host, \<open>None\<close> for the
  \<^verbatim>\<open>False\<close> the source returns when nothing is stored. The stored tuple has three
  components and is always truthy. Reading the stored credentials is taken to succeed;
  \<^verbatim>\<open>self.session.host\<close> raises \<^verbatim>\<open>AttributeError\<close> on the \<^verbatim>\<open>requests\<close> module.
\<close>

definition get_login :: "world \<Rightarrow> api_request \<Rightarrow> exn + string option" where
  "get_login w self =
     (case session self of
        RequestsModule \<Rightarrow> Inl AttributeError
      | HostSession s \<Rightarrow>
          Inr (case hostname w (host s) of
                 None \<Rightarrow> None
               | Some h \<Rightarrow> (case netrc_hosts w h of None \<Rightarrow> None | Some d \<Rightarrow> Some (fst d))))"

text \<open>
  \<^verbatim>\<open>get_error_code_map\<close>: with a truthy login the entry for 404 of the class-level
  dictionary is assigned in place; the dictionary itself is returned.
\<close>

definition get_error_code_map ::
  "world \<Rightarrow> string option \<Rightarrow> state \<Rightarrow> (nat \<rightharpoonup> string) \<times> state" where
  "get_error_code_map w login st =
     (let st' =
        (case login of
           None \<Rightarrow> st
         | Some l \<Rightarrow>
             if l \<noteq> [] then
               st\<lparr>response_code_error_map :=
                 (response_code_error_map st)(404 \<mapsto> RESOURCE_NOT_FOUND (msgs w) l)\<rparr>
             else st)
      in (response_code_error_map st', st'))"

text \<open>
  The body of the \<^verbatim>\<open>try\<close> block of \<^verbatim>\<open>verify\<close>:
  \<^verbatim>\<open>"\n".join([error for error in response.json()["non_field_errors"]])\<close>.
\<close>

definition non_field_errors :: "response \<Rightarrow> exn + string" where
  "non_field_errors r =
     (case r_json r of
        None \<Rightarrow> Inl JSONDecodeError
      | Some v \<Rightarrow>
          (case py_getitem v ''non_field_errors'' of
             Inl e \<Rightarrow> Inl e
           | Inr errs \<Rightarrow>
               (case py_iter errs of
                  Inl e \<Rightarrow> Inl e
                | Inr es \<Rightarrow> py_join ''\<newline>'' es)))"

section \<open>Response strategies\<close>

definition f_open :: "string \<Rightarrow> state \<Rightarrow> state" where
  "f_open p st = st\<lparr>files := (files st)(p \<mapsto> []), buffer := [], trace := trace st @ [FOpen p]\<rparr>"

definition f_write :: "bytes \<Rightarrow> state \<Rightarrow> state" where
  "f_write chunk st = st\<lparr>buffer := buffer st @ chunk, trace := trace st @ [FWrite chunk]\<rparr>"

definition on_disk :: "state \<Rightarrow> string \<Rightarrow> bytes" where
  "on_disk st p = (case files st p of None \<Rightarrow> [] | Some b \<Rightarrow> b)"

definition f_flush :: "string \<Rightarrow> state \<Rightarrow> state" where
  "f_flush p st =
     st\<lparr>files := (files st)(p \<mapsto> on_disk st p @ buffer st), buffer := [],
        trace := trace st @ [FFlush]\<rparr>"

definition f_close :: "string \<Rightarrow> state \<Rightarrow> state" where
  "f_close p st =
     st\<lparr>files := (files st)(p \<mapsto> on_disk st p @ buffer st), buffer := [],
        trace := trace st @ [FClose]\<rparr>"

text \<open>The loop of \<^verbatim>\<open>FileResponse.process\<close> over the chunks.\<close>

fun write_chunks :: "string \<Rightarrow> bytes list \<Rightarrow> state \<Rightarrow> state" where
  "write_chunks p [] st = st"
| "write_chunks p (chunk # rest) st =
     (if chunk \<noteq> [] then write_chunks p rest (f_flush p (f_write chunk st))
      else write_chunks p rest st)"

definition create_temp_dir :: "world \<Rightarrow> state \<Rightarrow> string \<times> state" where
  "create_temp_dir w st =
     (temp_dir_name w (temp_dirs_created st),
      st\<lparr>temp_dirs_created := Suc (temp_dirs_created st), trace := trace st @ [CreateTempDir]\<rparr>)"

text \<open>
  \<^verbatim>\<open>FileResponse.process\<close>. In \<^verbatim>\<open>self.directory or create_temp_dir()\<close> and
  \<^verbatim>\<open>self.filename or "data.tar.gz"\<close> both \<^verbatim>\<open>None\<close> and the empty string are falsy,
  and the right operand is evaluated only then. The \<^verbatim>\<open>with\<close> block closes the file.
\<close>

definition FileResponse_process ::
  "world \<Rightarrow> api_request \<Rightarrow> response \<Rightarrow> state \<Rightarrow> (exn + result) \<times> state" where
  "FileResponse_process w self r st =
     (let (dir, st1) =
            (case directory self of
               None \<Rightarrow> create_temp_dir w st
             | Some d \<Rightarrow> if d \<noteq> [] then (d, st) else create_temp_dir w st);
          name =
            (case filename self of
               None \<Rightarrow> ''data.tar.gz''
             | Some f \<Rightarrow> if f \<noteq> [] then f else ''data.tar.gz'');
          dump_path = path_join w dir name
      in if can_open w dump_path then
           (Inr (RPath dump_path),
            f_close dump_path (write_chunks dump_path (iter_content r 1024) (f_open dump_path st1)))
         else (Inl OSError, st1))"

definition process_body ::
  "world \<Rightarrow> api_request \<Rightarrow> response \<Rightarrow> state \<Rightarrow> (exn + result) \<times> state" where
  "process_body w self r st =
     (case strategy self of
        DefaultProcess \<Rightarrow>
          (case r_json r of None \<Rightarrow> (Inl JSONDecodeError, st) | Some v \<Rightarrow> (Inr (RJson v), st))
      | RawResponse \<Rightarrow> (Inr (RRaw r), st)
      | TextResponse \<Rightarrow> (Inr (RText (r_text r)), st)
      | JsonResponse \<Rightarrow>
          (case r_json r of None \<Rightarrow> (Inl JSONDecodeError, st) | Some v \<Rightarrow> (Inr (RJson v), st))
      | FileResponse \<Rightarrow> FileResponse_process w self r st
      | SlugToID \<Rightarrow>
          (case r_json r of
             None \<Rightarrow> (Inl JSONDecodeError, st)
           | Some (PDict kvs) \<Rightarrow>
               (Inr (RJson (case map_of kvs ''id'' of None \<Rightarrow> PNone | Some v \<Rightarrow> v)), st)
           | Some _ \<Rightarrow> (Inl AttributeError, st)))"

text \<open>A call of \<^verbatim>\<open>self.process(response)\<close>: the call is recorded, then the body runs.\<close>

definition process ::
  "world \<Rightarrow> api_request \<Rightarrow> response \<Rightarrow> state \<Rightarrow> (exn + result) \<times> state" where
  "process w self r st = process_body w self r (st\<lparr>trace := trace st @ [CallProcess]\<rparr>)"

section \<open>Verification of a response\<close>

definition APIRequest_verify ::
  "world \<Rightarrow> api_request \<Rightarrow> response \<Rightarrow> state \<Rightarrow> (exn + result) \<times> state" where
  "APIRequest_verify w self r st =
     (if \<not> ok r then
        (case get_login w self of
           Inl e \<Rightarrow> (Inl e, st)
         | Inr login \<Rightarrow>
             (let (m, st1) = get_error_code_map w login st;
                  error_msg =
                    (case m (status_code r) of
                       None \<Rightarrow> default_error_message self
                     | Some s \<Rightarrow> s)
              in case session self of
                   RequestsModule \<Rightarrow> (Inl AttributeError, st1)
                 | HostSession s \<Rightarrow>
                     (let response_content =
                            (if \<not> debug s then take 300 (r_text r) else r_text r);
                          error_msg' =
                            (if response_content \<noteq> [] then
                               (case non_field_errors r of
                                  Inr nfe \<Rightarrow> fmt2 error_msg nfe
                                | Inl e \<Rightarrow> fmt2 error_msg response_content)
                             else error_msg)
                      in (Inl (APIRequestError error_msg'), st1))))
      else process w self r st)"

text \<open>The two loops of \<^verbatim>\<open>DjangoFormMixin.verify\<close>, with the accumulator \<open>formatted\<close>.\<close>

fun format_errors :: "world \<Rightarrow> string \<Rightarrow> pyval list \<Rightarrow> string" where
  "format_errors w formatted [] = formatted"
| "format_errors w formatted (error # errors) =
     format_errors w (formatted @ ''   - '' @ py_format w error @ ''\<newline>'') errors"

fun format_fields :: "world \<Rightarrow> string \<Rightarrow> (string \<times> pyval) list \<Rightarrow> exn + string" where
  "format_fields w formatted [] = Inr formatted"
| "format_fields w formatted ((field, errors) # rest) =
     (case py_iter errors of
        Inl e \<Rightarrow> Inl e
      | Inr es \<Rightarrow>
          format_fields w
            (format_errors w (formatted @ '' - '' @ field @ ''\<newline>'') es @ ''\<newline>'') rest)"

definition report_header :: string where
  "report_header =
     ''There was an error submitting your request:\<newline>'' @
     ''-------------------------------------------\<newline>\<newline>''"

definition DjangoFormMixin_verify ::
  "world \<Rightarrow> api_request \<Rightarrow> response \<Rightarrow> state \<Rightarrow> (exn + result) \<times> state" where
  "DjangoFormMixin_verify w self r st =
     (if ok r then (Inr (RMessage (success_message self)), st)
      else if status_code r = 400 then
        (case r_json r of
           None \<Rightarrow> (Inl JSONDecodeError, st)
         | Some (PDict kvs) \<Rightarrow>
             (case format_fields w report_header kvs of
                Inl e \<Rightarrow> (Inl e, st)
              | Inr formatted \<Rightarrow> (Inr (RMessage (strip_nl formatted)), st))
         | Some _ \<Rightarrow> (Inl AttributeError, st))
      else APIRequest_verify w self r st)"

text \<open>\<^verbatim>\<open>self.verify(response)\<close>, resolved along the bases of the class.\<close>

definition verify ::
  "world \<Rightarrow> api_request \<Rightarrow> response \<Rightarrow> state \<Rightarrow> (exn + result) \<times> state" where
  "verify w self r st =
     (if django_form_mixin self then DjangoFormMixin_verify w self r st
      else APIRequest_verify w self r st)"

section \<open>Dictionaries in insertion order\<close>

text \<open>\<^verbatim>\<open>d[k] = v\<close> and \<^verbatim>\<open>d.update(other)\<close> on a dictionary kept as an association list.\<close>

definition dict_set :: "(string \<times> 'v) list \<Rightarrow> string \<Rightarrow> 'v \<Rightarrow> (string \<times> 'v) list" where
  "dict_set d k v =
     (if k \<in> set (map fst d) then map (\<lambda>kv. if fst kv = k then (k, v) else kv) d
      else d @ [(k, v)])"

fun dict_update :: "(string \<times> 'v) list \<Rightarrow> (string \<times> 'v) list \<Rightarrow> (string \<times> 'v) list" where
  "dict_update d [] = d"
| "dict_update d (kv # rest) = dict_update (dict_set d (fst kv) (snd kv)) rest"

section \<open>The host session\<close>

text \<open>\<^verbatim>\<open>host.rstrip("/")\<close>\<close>

definition rstrip_slash :: "string \<Rightarrow> string" where
  "rstrip_slash s = rev (dropWhile (\<lambda>c. c = CHR ''/'') (rev s))"

text \<open>
  The keyword arguments of \<^verbatim>\<open>SingleHostSession.__init__\<close>: \<open>kw_debug\<close> and
  \<open>kw_proxies\<close> are absent (\<open>None\<close>) or given, \<open>kw_other\<close> are the remaining ones.
\<close>

record init_kwargs =
  kw_debug :: "bool option"
  kw_proxies :: "(string \<times> string) list option"
  kw_other :: "string \<rightharpoonup> pyval"

text \<open>
  \<^verbatim>\<open>SingleHostSession.__init__\<close> over the process environment \<open>environ\<close>. The session's
  proxies are a dictionary in insertion order; \<^verbatim>\<open>requests.Session.__init__\<close> leaves the
  attribute an empty dictionary.
\<close>

definition env_proxies :: "(string \<rightharpoonup> string) \<Rightarrow> (string \<times> string) list" where
  "env_proxies environ =
     (let default_proxies = [];
          default_proxies =
            (case environ ''HTTP_PROXY'' of
               None \<Rightarrow> default_proxies
             | Some v \<Rightarrow> dict_set default_proxies ''http'' v);
          default_proxies =
            (case environ ''HTTPS_PROXY'' of
               None \<Rightarrow> default_proxies
             | Some v \<Rightarrow> dict_set default_proxies ''https'' v)
      in default_proxies)"

definition SingleHostSession_init ::
  "(string \<rightharpoonup> string) \<Rightarrow> string \<Rightarrow> init_kwargs \<Rightarrow> session" where
  "SingleHostSession_init environ h kwargs =
     (let default_proxies = env_proxies environ;
          kw_proxies' =
            (if default_proxies \<noteq> [] then
               Some (dict_update default_proxies
                       (case kw_proxies kwargs of None \<Rightarrow> [] | Some p \<Rightarrow> p))
             else kw_proxies kwargs)
      in \<lparr>host = rstrip_slash h,
          debug = (case kw_debug kwargs of None \<Rightarrow> False | Some d \<Rightarrow> d),
          proxies = (case kw_proxies' of None \<Rightarrow> [] | Some p \<Rightarrow> p),
          attrs = kw_other kwargs\<rparr>)"

text \<open>\<^verbatim>\<open>s.replace(old, new, 1)\<close>: the leftmost occurrence of \<open>old\<close> is replaced.\<close>

fun replace_first :: "string \<Rightarrow> string \<Rightarrow> string \<Rightarrow> string" where
  "replace_first old new [] = (if old = [] then new else [])"
| "replace_first old new (c # cs) =
     (if take (length old) (c # cs) = old then new @ drop (length old) (c # cs)
      else c # replace_first old new cs)"

text \<open>\<open>contains old s\<close>: the string \<open>old\<close> occurs in \<open>s\<close>.\<close>

fun contains :: "string \<Rightarrow> string \<Rightarrow> bool" where
  "contains old [] = (old = [])"
| "contains old (c # cs) = (take (length old) (c # cs) = old \<or> contains old cs)"

fun py_truthy :: "pyval \<Rightarrow> bool" where
  "py_truthy PNone = False"
| "py_truthy (PBool b) = b"
| "py_truthy (PInt i) = (i \<noteq> 0)"
| "py_truthy (PFloat m e) = (m \<noteq> 0)"
| "py_truthy (PStr s) = (s \<noteq> [])"
| "py_truthy (PList xs) = (xs \<noteq> [])"
| "py_truthy (PDict kvs) = (kvs \<noteq> [])"

definition pop :: "(string \<rightharpoonup> pyval) \<Rightarrow> string \<Rightarrow> string \<rightharpoonup> pyval" where
  "pop kw k = (\<lambda>x. if x = k then None else kw x)"

text \<open>
  \<^verbatim>\<open>SingleHostSession.request\<close>, called with keyword arguments only: the call it passes
  to \<^verbatim>\<open>requests.Session.request\<close>, and that call made.
\<close>

definition SingleHostSession_request_call ::
  "world \<Rightarrow> session \<Rightarrow> string \<Rightarrow> string \<Rightarrow> (string \<rightharpoonup> pyval) \<Rightarrow> http_call" where
  "SingleHostSession_request_call w self meth u kw =
     (let v3_compatibilty =
            (case kw ''v3_compatibilty'' of None \<Rightarrow> False | Some v \<Rightarrow> py_truthy v);
          kwargs = pop kw ''v3_compatibilty'';
          u1 = urljoin w (host self) u
      in if v3_compatibilty then
           \<lparr>c_method = meth,
            c_url = replace_first ''control'' ''api'' u1,
            c_kwargs =
              (pop kwargs ''data'')
                (''json'' \<mapsto> (case kwargs ''data'' of None \<Rightarrow> PDict [] | Some d \<Rightarrow> d))\<rparr>
         else \<lparr>c_method = meth, c_url = u1, c_kwargs = kwargs\<rparr>)"

definition SingleHostSession_request ::
  "world \<Rightarrow> session \<Rightarrow> string \<Rightarrow> string \<Rightarrow> (string \<rightharpoonup> pyval) \<Rightarrow> exn + response" where
  "SingleHostSession_request w self meth u kw =
     send w self (SingleHostSession_request_call w self meth u kw)"

text \<open>
  \<^verbatim>\<open>requests.request(method, url, **kwargs)\<close>, what \<^verbatim>\<open>self.session.request\<close> is on the
  \<^verbatim>\<open>requests\<close> module: \<^verbatim>\<open>Session.request\<close> has no parameter \<^verbatim>\<open>v3_compatibilty\<close>, so
  that keyword is a \<^verbatim>\<open>TypeError\<close>; the other keywords are taken to be parameters of it.
\<close>

definition requests_request ::
  "world \<Rightarrow> string \<Rightarrow> string \<Rightarrow> (string \<rightharpoonup> pyval) \<Rightarrow> exn + response" where
  "requests_request w meth u kw =
     (if kw ''v3_compatibilty'' \<noteq> None then Inl TypeError
      else send_plain w \<lparr>c_method = meth, c_url = u, c_kwargs = kw\<rparr>)"

definition session_request ::
  "world \<Rightarrow> client \<Rightarrow> string \<Rightarrow> string \<Rightarrow> (string \<rightharpoonup> pyval) \<Rightarrow> exn + response" where
  "session_request w c meth u kw =
     (case c of
        HostSession s \<Rightarrow> SingleHostSession_request w s meth u kw
      | RequestsModule \<Rightarrow> requests_request w meth u kw)"

section \<open>Dispatch of a request\<close>

definition get_url :: "world \<Rightarrow> api_request \<Rightarrow> exn + string" where
  "get_url w self =
     (case url self of None \<Rightarrow> Inl AttributeError | Some t \<Rightarrow> format_url w t (url_kwargs self))"

text \<open>
  \<^verbatim>\<open>get_headers\<close>: \<^verbatim>\<open>copy()\<close> allocates a new dictionary at the next free address, and
  \<^verbatim>\<open>update\<close> writes to that one; its address is returned.
\<close>

definition get_headers :: "api_request \<Rightarrow> state \<Rightarrow> nat \<times> state" where
  "get_headers self st =
     (let a = next_addr st;
          st1 = st\<lparr>heap := (heap st)(a := heap st (default_headers self)), next_addr := Suc a\<rparr>;
          st2 = st1\<lparr>heap := (heap st1)(a := dict_update (heap st1 a) (heap st1 (headers self)))\<rparr>
      in (a, st2))"

definition headers_value :: "(string \<times> string) list \<Rightarrow> pyval" where
  "headers_value d = PDict (map (\<lambda>kv. (fst kv, PStr (snd kv))) d)"

text \<open>
  The arguments \<^verbatim>\<open>APIRequest.request\<close> gives to \<^verbatim>\<open>self.session.request\<close>; a keyword
  given twice is a \<^verbatim>\<open>TypeError\<close>.
\<close>

definition request_kwargs ::
  "api_request \<Rightarrow> (string \<times> string) list \<Rightarrow> (string \<rightharpoonup> pyval) \<Rightarrow> exn + (string \<rightharpoonup> pyval)" where
  "request_kwargs self hdrs kwargs =
     (if kwargs ''data'' \<noteq> None \<or> kwargs ''files'' \<noteq> None \<or> kwargs ''headers'' \<noteq> None
         \<or> kwargs ''params'' \<noteq> None
      then Inl TypeError
      else Inr (kwargs(''data'' \<mapsto> data self, ''files'' \<mapsto> files_arg self,
                       ''headers'' \<mapsto> headers_value hdrs, ''params'' \<mapsto> params self)))"

text \<open>
  What \<^verbatim>\<open>APIRequest.request\<close> does with the outcome of the session's call: a
  connection error or a timeout becomes a \<^verbatim>\<open>ClickException\<close>, any other exception
  propagates, a response is verified.
\<close>

definition handle_outcome ::
  "world \<Rightarrow> api_request \<Rightarrow> exn + response \<Rightarrow> state \<Rightarrow> (exn + result) \<times> state" where
  "handle_outcome w self outcome st =
     (case outcome of
        Inl (ConnectionError e) \<Rightarrow>
          (Inl (ClickException (NETWORK_ERROR_MESSAGE (msgs w) @ e)), st)
      | Inl (Timeout e) \<Rightarrow>
          (Inl (ClickException (NETWORK_ERROR_MESSAGE (msgs w) @ e)), st)
      | Inl e \<Rightarrow> (Inl e, st)
      | Inr response \<Rightarrow> verify w self response st)"

definition APIRequest_request ::
  "world \<Rightarrow> api_request \<Rightarrow> (string \<rightharpoonup> pyval) \<Rightarrow> state \<Rightarrow> (exn + result) \<times> state" where
  "APIRequest_request w self kwargs st =
     (case get_url w self of
        Inl e \<Rightarrow> (Inl e, st)
      | Inr u \<Rightarrow>
          (let (a, st1) = get_headers self st in
           case request_kwargs self (heap st1 a) kwargs of
             Inl e \<Rightarrow> (Inl e, st1)
           | Inr kw \<Rightarrow>
               handle_outcome w self
                 (session_request w (session self) (http_method self) u kw) st1))"

definition APIV3Request_request ::
  "world \<Rightarrow> api_request \<Rightarrow> (string \<rightharpoonup> pyval) \<Rightarrow> state \<Rightarrow> (exn + result) \<times> state" where
  "APIV3Request_request w self kwargs st =
     (if kwargs ''v3_compatibilty'' \<noteq> None then (Inl TypeError, st)
      else APIRequest_request w self (kwargs(''v3_compatibilty'' \<mapsto> PBool True)) st)"

text \<open>
  \<^verbatim>\<open>self.request(**kwargs)\<close> along the bases: \<^verbatim>\<open>FileResponse.request\<close> first when the
  class has it, then \<^verbatim>\<open>APIV3Request.request\<close> or \<^verbatim>\<open>APIRequest.request\<close>.
\<close>

definition request ::
  "world \<Rightarrow> api_request \<Rightarrow> (string \<rightharpoonup> pyval) \<Rightarrow> state \<Rightarrow> (exn + result) \<times> state" where
  "request w self kwargs st =
     (let kwargs1 =
            (if strategy self = FileResponse then kwargs(''stream'' \<mapsto> PBool True) else kwargs)
      in if v3 self then APIV3Request_request w self kwargs1 st
         else APIRequest_request w self kwargs1 st)"

section \<open>The endpoint catalogue and sample data\<close>

text \<open>
  The class-level dictionaries \<^verbatim>\<open>APIRequest.default_headers\<close> and
  \<^verbatim>\<open>APIRequest.headers\<close> live at the addresses 0 and 1. \<open>initial_state\<close> is the state
  after the module is loaded.
\<close>

definition initial_state :: "world \<Rightarrow> state" where
  "initial_state w =
     \<lparr>response_code_error_map = initial_response_code_error_map (msgs w),
      heap = (\<lambda>a. [])(0 := [(''User-Agent'', user_agent w)], 1 := []),
      next_addr = 2,
      files = Map.empty,
      buffer = [],
      temp_dirs_created = 0,
      trace = []\<rparr>"

text \<open>An instance of \<^verbatim>\<open>APIRequest\<close> itself, built with the session as its only argument.\<close>

definition APIRequest :: "world \<Rightarrow> session \<Rightarrow> api_request" where
  "APIRequest w s =
     \<lparr>session = HostSession s, django_form_mixin = False, strategy = DefaultProcess, v3 = False,
      http_method = ''GET'', url = None, url_kwargs = [], params = PDict [], data = PDict [],
      files_arg = PDict [], default_headers = 0, headers = 1,
      default_error_message = SERVER_ERROR (msgs w), success_message = ''Request successful'',
      filename = None, directory = None\<rparr>"

definition ProjectListRequest :: "world \<Rightarrow> session \<Rightarrow> api_request" where
  "ProjectListRequest w s = (APIRequest w s)\<lparr>url := Some ''/api/v1/user-websites/''\<rparr>"

definition RegisterAddonRequest :: "world \<Rightarrow> session \<Rightarrow> api_request" where
  "RegisterAddonRequest w s =
     (APIRequest w s)\<lparr>django_form_mixin := True, strategy := JsonResponse,
        url := Some ''/api/v1/addon/register/'', http_method := ''POST'',
        success_message := ''Addon successfully registered''\<rparr>"

definition CreateBackupRequest :: "world \<Rightarrow> session \<Rightarrow> api_request" where
  "CreateBackupRequest w s =
     (APIRequest w s)\<lparr>strategy := JsonResponse, v3 := True,
        url := Some ''/apps/v3/backups/'', http_method := ''POST''\<rparr>"

text \<open>
  \<^verbatim>\<open>FinishBackupUploadRequest\<close>, built with the target URL: its \<^verbatim>\<open>__init__\<close> drops the
  session it is given and passes the \<^verbatim>\<open>requests\<close> module on.
\<close>

definition FinishBackupUploadRequest :: "world \<Rightarrow> session \<Rightarrow> string \<Rightarrow> api_request" where
  "FinishBackupUploadRequest w s u =
     (APIRequest w s)\<lparr>session := RequestsModule, strategy := JsonResponse, v3 := True,
        url := Some u, http_method := ''POST''\<rparr>"

definition UploadAddonRequest :: "world \<Rightarrow> session \<Rightarrow> api_request" where
  "UploadAddonRequest w s =
     (APIRequest w s)\<lparr>strategy := TextResponse, url := Some ''/api/v1/apps/'',
        http_method := ''POST''\<rparr>"

text \<open>Sample values for the parameters, used to run the definitions on concrete inputs.\<close>

definition sample_messages :: messages where
  "sample_messages =
     \<lparr>NETWORK_ERROR_MESSAGE = ''Network error: '',
      SERVER_ERROR = ''Server error'',
      AUTH_SERVER_ERROR = ''Login server error'',
      AUTH_INVALID_TOKEN = ''Invalid token'',
      RESOURCE_NOT_FOUND_ANONYMOUS = ''Resource not found'',
      RESOURCE_NOT_FOUND = (\<lambda>login. ''Resource not found, logged in as '' @ login),
      BAD_REQUEST = ''Bad request''\<rparr>"

definition sample_response :: "nat \<Rightarrow> string \<Rightarrow> pyval option \<Rightarrow> response" where
  "sample_response code body decoded =
     \<lparr>status_code = code, r_text = body, r_json = decoded, iter_content = (\<lambda>n. [])\<rparr>"

definition sample_world :: world where
  "sample_world =
     \<lparr>msgs = sample_messages,
      urljoin = (\<lambda>base u. base @ u),
      hostname = (\<lambda>h. if h = ''https://control.example.com'' then Some ''control.example.com''
                       else if h = ''https://other.example.com'' then Some ''other.example.com''
                       else None),
      netrc_hosts = [''control.example.com'' \<mapsto> (''alice'', None, ''secret'')],
      str_of = (\<lambda>v. ''?''),
      format_url = (\<lambda>t kw. Inr t),
      path_join = (\<lambda>d f. d @ ''/'' @ f),
      temp_dir_name = (\<lambda>n. ''/tmp/tmp'' @ replicate n (CHR ''x'')),
      can_open = (\<lambda>p. True),
      user_agent = ''divio-cli'',
      send = (\<lambda>s c. Inr (sample_response 200 ''{}'' (Some (PDict [])))),
      send_plain = (\<lambda>c. Inr (sample_response 200 ''{}'' (Some (PDict []))))\<rparr>"

definition sample_session :: session where
  "sample_session =
     SingleHostSession_init Map.empty ''https://control.example.com/''
       \<lparr>kw_debug = None, kw_proxies = None, kw_other = Map.empty\<rparr>"

definition other_session :: session where
  "other_session =
     SingleHostSession_init Map.empty ''https://other.example.com''
       \<lparr>kw_debug = None, kw_proxies = None, kw_other = Map.empty\<rparr>"

definition ControlPanelRequest :: "world \<Rightarrow> session \<Rightarrow> api_request" where
  "ControlPanelRequest w s =
     (CreateBackupRequest w s)\<lparr>url := Some ''/apps/v3/control-panel/'',
        data := PDict [(''name'', PStr ''nightly'')]\<rparr>"

definition debug_session :: session where
  "debug_session =
     SingleHostSession_init Map.empty ''https://control.example.com/''
       \<lparr>kw_debug = Some True, kw_proxies = None, kw_other = Map.empty\<rparr>"

definition long_body :: string where
  "long_body = replicate 301 (CHR ''x'')"

text \<open>
  The report of the form-validation strategy as the specification words it: one section
  per field, in the order of the fields, with one bullet per error and an empty line after
  it, below the header, and without newlines at either end. \<open>field_errors\<close> is the
  decoded JSON body that maps each field name to its list of error strings.
\<close>

definition bullet :: "string \<Rightarrow> string" where
  "bullet e = ''   - '' @ e @ ''\<newline>''"

definition section_text :: "string \<times> string list \<Rightarrow> string" where
  "section_text fe = '' - '' @ fst fe @ ''\<newline>'' @ concat (map bullet (snd fe)) @ ''\<newline>''"

definition report_spec :: "(string \<times> string list) list \<Rightarrow> string" where
  "report_spec fes = strip_nl (report_header @ concat (map section_text fes))"

definition field_errors :: "(string \<times> string list) list \<Rightarrow> pyval" where
  "field_errors fes = PDict (map (\<lambda>fe. (fst fe, PList (map PStr (snd fe)))) fes)"

definition sample_field_errors :: "(string \<times> string list) list" where
  "sample_field_errors = [(''name'', [''required'']), (''email'', [''invalid'', ''too long''])]"

text \<open>
  A request class with \<^verbatim>\<open>FileResponse\<close> first in its bases, with and without an
  explicit target, and a response whose body arrives in chunks of 1024, 0, 1024 and 10
  bytes.
\<close>

definition DownloadRequest :: "world \<Rightarrow> session \<Rightarrow> api_request" where
  "DownloadRequest w s =
     (APIRequest w s)\<lparr>strategy := FileResponse, url := Some ''/api/v1/download/''\<rparr>"

definition TargetedDownloadRequest :: "world \<Rightarrow> session \<Rightarrow> api_request" where
  "TargetedDownloadRequest w s =
     (DownloadRequest w s)\<lparr>filename := Some ''site.tar.gz'', directory := Some ''/srv/backups''\<rparr>"

definition sample_chunks :: "bytes list" where
  "sample_chunks =
     [replicate 1024 (CHR ''a''), [], replicate 1024 (CHR ''b''), replicate 10 (CHR ''c'')]"

definition sample_download :: response where
  "sample_download =
     \<lparr>status_code = 200, r_text = [], r_json = None, iter_content = (\<lambda>n. sample_chunks)\<rparr>"

text \<open>
  The path \<^verbatim>\<open>FileResponse.process\<close> writes to, the chunks it keeps and the file
  operations they give rise to, for stating what \<^verbatim>\<open>process\<close> does.
\<close>

definition uses_temp_dir :: "api_request \<Rightarrow> bool" where
  "uses_temp_dir self = (case directory self of None \<Rightarrow> True | Some d \<Rightarrow> d = [])"

definition dump_dir :: "world \<Rightarrow> api_request \<Rightarrow> state \<Rightarrow> string" where
  "dump_dir w self st =
     (if uses_temp_dir self then temp_dir_name w (temp_dirs_created st)
      else (case directory self of None \<Rightarrow> [] | Some d \<Rightarrow> d))"

definition dump_name :: "api_request \<Rightarrow> string" where
  "dump_name self =
     (case filename self of
        None \<Rightarrow> ''data.tar.gz''
      | Some f \<Rightarrow> if f \<noteq> [] then f else ''data.tar.gz'')"

definition dump_path :: "world \<Rightarrow> api_request \<Rightarrow> state \<Rightarrow> string" where
  "dump_path w self st = path_join w (dump_dir w self st) (dump_name self)"

definition nonempty_chunks :: "bytes list \<Rightarrow> bytes list" where
  "nonempty_chunks cs = filter (\<lambda>c. c \<noteq> []) cs"

definition write_events :: "bytes list \<Rightarrow> event list" where
  "write_events cs = concat (map (\<lambda>c. [FWrite c, FFlush]) cs)"

definition sample_environ :: "string \<rightharpoonup> string" where
  "sample_environ =
     [''HTTP_PROXY'' \<mapsto> ''http://proxy.example.com:3128'',
      ''HTTPS_PROXY'' \<mapsto> ''http://proxy.example.com:3129'']"

text \<open>
  The proxy the process environment gives for a scheme: \<^verbatim>\<open>HTTP_PROXY\<close> for
  \<open>http\<close>, \<^verbatim>\<open>HTTPS_PROXY\<close> for \<open>https\<close>, none for any other key.
\<close>

definition environ_proxy :: "(string \<rightharpoonup> string) \<Rightarrow> string \<Rightarrow> string option" where
  "environ_proxy environ k =
     (if k = ''http'' then environ ''HTTP_PROXY''
      else if k = ''https'' then environ ''HTTPS_PROXY''
      else None)"

text \<open>
  What a caller can do with \<^verbatim>\<open>get_headers\<close>: call it, or change the contents of a
  mapping an earlier call returned (\<open>Mutate i d\<close> gives the \<open>i\<close>-th returned mapping the
  contents \<open>d\<close>). \<open>run_ops\<close> runs such a sequence and collects the returned addresses.
\<close>

datatype client_op = GetHeaders | Mutate nat "(string \<times> string) list"

fun run_ops :: "api_request \<Rightarrow> client_op list \<Rightarrow> nat list \<Rightarrow> state \<Rightarrow> nat list \<times> state" where
  "run_ops self [] rs st = (rs, st)"
| "run_ops self (GetHeaders # ops) rs st =
     run_ops self ops (rs @ [fst (get_headers self st)]) (snd (get_headers self st))"
| "run_ops self (Mutate i d # ops) rs st =
     (if i < length rs then run_ops self ops rs (st\<lparr>heap := (heap st)(rs ! i := d)\<rparr>)
      else run_ops self ops rs st)"

definition sample_ops :: "client_op list" where
  "sample_ops = [GetHeaders, Mutate 0 [(''User-Agent'', ''changed'')], GetHeaders]"

text \<open>The number of calls of \<^verbatim>\<open>process\<close> observed so far.\<close>

definition process_calls :: "state \<Rightarrow> nat" where
  "process_calls st = length (filter (\<lambda>e. e = CallProcess) (trace st))"

text \<open>
  The classification of a failed response as the specification words it. \<open>stored_login\<close>
  is the login name the stored credentials associate with the session's host, if any.
  \<open>classified_message\<close> is the message of the error table for the status code, where the
  entry for 404 is the one that names the login when a non-empty login is resolved, and
  the default error message of the request when the table has no entry.
\<close>

definition stored_login :: "world \<Rightarrow> session \<Rightarrow> string option" where
  "stored_login w s =
     (case hostname w (host s) of
        None \<Rightarrow> None
      | Some h \<Rightarrow> map_option fst (netrc_hosts w h))"

definition table_message :: "api_request \<Rightarrow> response \<Rightarrow> state \<Rightarrow> string" where
  "table_message self r st =
     (case response_code_error_map st (status_code r) of
        None \<Rightarrow> default_error_message self
      | Some m \<Rightarrow> m)"

definition classified_message ::
  "world \<Rightarrow> session \<Rightarrow> api_request \<Rightarrow> response \<Rightarrow> state \<Rightarrow> string" where
  "classified_message w s self r st =
     (case stored_login w s of
        None \<Rightarrow> table_message self r st
      | Some l \<Rightarrow>
          if l \<noteq> [] \<and> status_code r = 404 then RESOURCE_NOT_FOUND (msgs w) l
          else table_message self r st)"

text \<open>
  The structured error details as the specification words them: the items under
  \<^verbatim>\<open>non_field_errors\<close> of a body that decodes to a JSON object, one per line, when
  they can be listed and all are strings (a string lists its characters and an object its
  keys, as Python iterates them). \<open>appended_details\<close> is what follows the classified
  message: nothing for an empty body, else an empty line and the structured lines, or,
  without them, the body text, cut to its first 300 characters unless the session is in
  debug mode.
\<close>

fun the_str :: "pyval \<Rightarrow> string option" where
  "the_str (PStr s) = Some s"
| "the_str _ = None"

fun lines_of :: "pyval \<Rightarrow> string list option" where
  "lines_of (PList vs) = those (map the_str vs)"
| "lines_of (PStr s) = Some (map (\<lambda>c. [c]) s)"
| "lines_of (PDict kvs) = Some (map fst kvs)"
| "lines_of _ = None"

definition structured_lines :: "response \<Rightarrow> string option" where
  "structured_lines r =
     (case r_json r of
        Some (PDict kvs) \<Rightarrow>
          (case map_of kvs ''non_field_errors'' of
             None \<Rightarrow> None
           | Some v \<Rightarrow> map_option (join ''\<newline>'') (lines_of v))
      | _ \<Rightarrow> None)"

definition appended_details :: "session \<Rightarrow> response \<Rightarrow> string" where
  "appended_details s r =
     (if r_text r = [] then []
      else ''\<newline>\<newline>'' @
        (case structured_lines r of
           Some ls \<Rightarrow> ls
         | None \<Rightarrow> if debug s then r_text r else take 300 (r_text r)))"

text \<open>
  A failed response as a server sends it: the body text is the JSON document that decodes
  to the object of \<open>r_json\<close>, and its first error line alone has 301 characters.
\<close>

definition quoted :: "string \<Rightarrow> string" where
  "quoted s = CHR 0x22 # s @ [CHR 0x22]"

definition sample_errors_text :: string where
  "sample_errors_text =
     ''{'' @ quoted ''non_field_errors'' @ '': ['' @ quoted long_body @ '', '' @ quoted ''b''
       @ '']}''"

definition sample_errors_response :: response where
  "sample_errors_response =
     sample_response 500 sample_errors_text
       (Some (PDict [(''non_field_errors'', PList (map PStr [long_body, ''b'']))]))"

section \<open>Properties\<close>


subsection \<open>Calls of process\<close>

lemma write_chunks_calls: "process_calls (write_chunks p cs st) = process_calls st"
  by (induction cs arbitrary: st) (simp_all add: process_calls_def f_flush_def f_write_def)

lemma FileResponse_process_calls:
  "process_calls (snd (FileResponse_process w self r st)) = process_calls st"
  by (simp add: FileResponse_process_def Let_def create_temp_dir_def f_close_def f_open_def
      write_chunks_calls[unfolded process_calls_def] process_calls_def
      split: option.splits prod.splits)

lemma process_body_calls:
  "process_calls (snd (process_body w self r st)) = process_calls st"
  by (simp add: process_body_def FileResponse_process_calls
      split: strategy.splits option.splits pyval.splits)

lemma process_calls_once:
  "process_calls (snd (process w self r st)) = Suc (process_calls st)"
  by (simp add: process_def process_body_calls) (simp add: process_calls_def)

lemma APIRequest_verify_calls:
  "\<not> ok r \<Longrightarrow> process_calls (snd (APIRequest_verify w self r st)) = process_calls st"
  by (simp add: APIRequest_verify_def Let_def get_error_code_map_def process_calls_def
      split: prod.splits option.splits sum.splits client.splits)

lemma DjangoFormMixin_verify_calls:
  "process_calls (snd (DjangoFormMixin_verify w self r st)) = process_calls st"
  using APIRequest_verify_calls[of r w self st]
  by (simp add: DjangoFormMixin_verify_def split: option.splits pyval.splits sum.splits)

subsection \<open>The message of a failed response\<close>

lemma get_login_host:
  "session self = HostSession s \<Longrightarrow> get_login w self = Inr (stored_login w s)"
  by (simp add: get_login_def stored_login_def split: option.splits)

lemma error_table_message:
  "(case fst (get_error_code_map w (stored_login w s) st) (status_code r) of
      None \<Rightarrow> default_error_message self
    | Some m \<Rightarrow> m) = classified_message w s self r st"
  by (simp add: get_error_code_map_def classified_message_def table_message_def Let_def
      split: option.splits)

lemma those_the_str: "those (map the_str vs) = as_strs vs"
  by (induction vs rule: as_strs.induct) (simp_all split: option.splits)

lemma as_strs_chars: "as_strs (map (\<lambda>c. PStr [c]) str) = Some (map (\<lambda>c. [c]) str)"
  by (induction str) simp_all

lemma as_strs_keys: "as_strs (map (\<lambda>kv. PStr (fst kv)) kvs) = Some (map fst kvs)"
  by (induction kvs) simp_all

lemma py_join_lines:
  assumes "py_iter v = Inr es"
  shows "py_join sep es =
     (case lines_of v of None \<Rightarrow> Inl TypeError | Some ls \<Rightarrow> Inr (join sep ls))"
  using assms
  by (cases v) (auto simp add: py_join_def those_the_str as_strs_chars as_strs_keys)

lemma py_iter_lines: "py_iter v = Inl e \<Longrightarrow> lines_of v = None"
  by (cases v) simp_all

lemma non_field_errors_lines:
  "(\<forall>ls. structured_lines r = Some ls \<longrightarrow> non_field_errors r = Inr ls)
   \<and> (structured_lines r = None \<longrightarrow> (\<exists>e. non_field_errors r = Inl e))"
proof (cases "r_json r")
  case None
  then show ?thesis by (simp add: structured_lines_def non_field_errors_def)
next
  case (Some v)
  show ?thesis
  proof (cases "\<exists>kvs x. v = PDict kvs \<and> map_of kvs ''non_field_errors'' = Some x")
    case True
    then obtain kvs x where v: "v = PDict kvs" and x: "map_of kvs ''non_field_errors'' = Some x"
      by blast
    show ?thesis
    proof (cases "py_iter x")
      case (Inl e)
      with Some v x py_iter_lines[OF Inl] show ?thesis
        by (simp add: structured_lines_def non_field_errors_def)
    next
      case (Inr es)
      with Some v x py_join_lines[OF Inr, of "''\<newline>''"] show ?thesis
        by (auto simp add: structured_lines_def non_field_errors_def split: option.splits)
    qed
  next
    case False
    with Some show ?thesis
      by (cases v) (auto simp add: structured_lines_def non_field_errors_def
          split: option.splits)
  qed
qed

lemma APIRequest_verify_message:
  assumes "session self = HostSession s" and "\<not> ok r"
  shows "fst (APIRequest_verify w self r st) =
     Inl (APIRequestError (classified_message w s self r st @ appended_details s r))"
proof (cases "structured_lines r")
  case None
  with non_field_errors_lines[of r] obtain e where "non_field_errors r = Inl e" by blast
  with assms None show ?thesis
    by (simp add: APIRequest_verify_def get_login_host appended_details_def fmt2_def
        split_beta Let_def error_table_message)
next
  case (Some ls)
  with non_field_errors_lines[of r] have "non_field_errors r = Inr ls" by blast
  with assms Some show ?thesis
    by (simp add: APIRequest_verify_def get_login_host appended_details_def fmt2_def
        split_beta Let_def error_table_message)
qed

lemma requests_module_verify:
  "session self = RequestsModule \<Longrightarrow> \<not> ok r \<Longrightarrow>
   APIRequest_verify w self r st = (Inl AttributeError, st)"
  by (simp add: APIRequest_verify_def get_login_def)

text \<open>
  Claim C1, as amended. A request whose class does not take \<^verbatim>\<open>verify\<close> from
  \<^verbatim>\<open>DjangoFormMixin\<close> hands the response to \<^verbatim>\<open>process\<close>, once, exactly when
  \<^verbatim>\<open>response.ok\<close> holds; on a response that is not ok it never calls \<^verbatim>\<open>process\<close>,
  and on a \<^verbatim>\<open>SingleHostSession\<close> it raises \<^verbatim>\<open>APIRequestError\<close> with the classified
  message, followed by the details of the body. With the mixin \<^verbatim>\<open>verify\<close> never calls
  \<^verbatim>\<open>process\<close>. The flag \<^verbatim>\<open>ok\<close> is true of every status outside 400..599, so of
  every 2xx status.
\<close>

theorem verify_delegates_iff_ok:
  "(\<not> django_form_mixin self \<and> ok r \<longrightarrow>
      verify w self r st = process w self r st
      \<and> process_calls (snd (verify w self r st)) = Suc (process_calls st))
   \<and> (\<not> django_form_mixin self \<and> \<not> ok r \<longrightarrow>
      process_calls (snd (verify w self r st)) = process_calls st)
   \<and> (\<forall>s. \<not> django_form_mixin self \<and> \<not> ok r \<and> session self = HostSession s \<longrightarrow>
      fst (verify w self r st) =
        Inl (APIRequestError (classified_message w s self r st @ appended_details s r)))
   \<and> (django_form_mixin self \<longrightarrow>
      process_calls (snd (verify w self r st)) = process_calls st)
   \<and> (ok r \<longleftrightarrow> \<not> (400 \<le> status_code r \<and> status_code r < 600))
   \<and> (200 \<le> status_code r \<and> status_code r < 300 \<longrightarrow> ok r)"
proof -
  have a: "\<not> django_form_mixin self \<and> ok r \<longrightarrow>
      verify w self r st = process w self r st
      \<and> process_calls (snd (verify w self r st)) = Suc (process_calls st)"
    by (simp add: verify_def APIRequest_verify_def process_calls_once)
  have b: "\<not> django_form_mixin self \<and> \<not> ok r \<longrightarrow>
      process_calls (snd (verify w self r st)) = process_calls st"
    using APIRequest_verify_calls[of r w self st] by (simp add: verify_def)
  have b': "\<forall>s. \<not> django_form_mixin self \<and> \<not> ok r \<and> session self = HostSession s \<longrightarrow>
      fst (verify w self r st) =
        Inl (APIRequestError (classified_message w s self r st @ appended_details s r))"
    by (simp add: verify_def APIRequest_verify_message)
  have c: "django_form_mixin self \<longrightarrow>
      process_calls (snd (verify w self r st)) = process_calls st"
    by (simp add: verify_def DjangoFormMixin_verify_calls)
  have d: "ok r \<longleftrightarrow> \<not> (400 \<le> status_code r \<and> status_code r < 600)"
    by (simp add: ok_def)
  have e: "200 \<le> status_code r \<and> status_code r < 300 \<longrightarrow> ok r"
    by (simp add: ok_def)
  show ?thesis by (intro conjI a b b' c d e)
qed


text \<open>
  \<^verbatim>\<open>FinishBackupUploadRequest\<close> keeps the \<^verbatim>\<open>requests\<close> module as its session: on a
  response that is not ok, \<^verbatim>\<open>get_login\<close> fails on \<^verbatim>\<open>self.session.host\<close> before any
  message is built.
\<close>

lemma finish_upload_verify_failure:
  "\<not> ok r \<Longrightarrow>
   verify w (FinishBackupUploadRequest w s u) r st = (Inl AttributeError, st)"
  by (simp add: verify_def requests_module_verify FinishBackupUploadRequest_def APIRequest_def)

subsection \<open>Sample runs\<close>

lemma sample_hosts:
  "host sample_session = ''https://control.example.com''"
  "host debug_session = ''https://control.example.com''"
  "host other_session = ''https://other.example.com''"
  "\<not> debug sample_session" "debug debug_session" "\<not> debug other_session"
  by (simp_all add: sample_session_def debug_session_def other_session_def
      SingleHostSession_init_def Let_def rstrip_slash_def)

lemma sample_logins:
  "stored_login sample_world sample_session = Some ''alice''"
  "stored_login sample_world debug_session = Some ''alice''"
  "stored_login sample_world other_session = None"
  by (simp_all add: stored_login_def sample_hosts) (simp_all add: sample_world_def)

lemma sample_table:
  "response_code_error_map (initial_state sample_world) =
     [403 \<mapsto> ''Invalid token'', 401 \<mapsto> ''Invalid token'', 404 \<mapsto> ''Resource not found'',
      400 \<mapsto> ''Bad request'']"
  by (simp add: initial_state_def initial_response_code_error_map_def sample_world_def
      sample_messages_def)

lemma sample_request_attrs:
  "session (ProjectListRequest w s) = HostSession s"
  "\<not> django_form_mixin (ProjectListRequest w s)"
  "default_error_message (ProjectListRequest w s) = SERVER_ERROR (msgs w)"
  "session (RegisterAddonRequest w s) = HostSession s"
  "django_form_mixin (RegisterAddonRequest w s)"
  "session (UploadAddonRequest w s) = HostSession s"
  "\<not> django_form_mixin (UploadAddonRequest w s)"
  "strategy (UploadAddonRequest w s) = TextResponse"
  by (simp_all add: ProjectListRequest_def RegisterAddonRequest_def UploadAddonRequest_def
      APIRequest_def)

lemma sample_messages_values:
  "SERVER_ERROR (msgs sample_world) = ''Server error''"
  "RESOURCE_NOT_FOUND (msgs sample_world) l = ''Resource not found, logged in as '' @ l"
  by (simp_all add: sample_world_def sample_messages_def)

lemma sample_classified_500:
  "classified_message sample_world s (ProjectListRequest sample_world s')
     (sample_response 500 b j) (initial_state sample_world) = ''Server error''"
  by (simp add: classified_message_def table_message_def sample_table sample_request_attrs
      sample_messages_values sample_response_def split: option.splits)

lemma sample_classified_404:
  "classified_message sample_world sample_session (ProjectListRequest sample_world s')
     (sample_response 404 b j) (initial_state sample_world)
     = ''Resource not found, logged in as alice''"
  by (simp add: classified_message_def sample_logins sample_messages_values sample_response_def)

theorem verify_delegates_iff_ok_witness:
  "\<not> django_form_mixin (ProjectListRequest sample_world sample_session)
   \<and> ok (sample_response 200 ''[]'' (Some (PList [])))
   \<and> \<not> ok (sample_response 404 ''gone'' None)
   \<and> session (ProjectListRequest sample_world sample_session) = HostSession sample_session
   \<and> django_form_mixin (RegisterAddonRequest sample_world sample_session)
   \<and> verify sample_world (ProjectListRequest sample_world sample_session)
        (sample_response 200 ''[]'' (Some (PList []))) (initial_state sample_world)
      = process sample_world (ProjectListRequest sample_world sample_session)
        (sample_response 200 ''[]'' (Some (PList []))) (initial_state sample_world)
   \<and> process_calls (snd (verify sample_world (ProjectListRequest sample_world sample_session)
        (sample_response 200 ''[]'' (Some (PList []))) (initial_state sample_world))) = 1
   \<and> process_calls (snd (verify sample_world (ProjectListRequest sample_world sample_session)
        (sample_response 404 ''gone'' None) (initial_state sample_world))) = 0
   \<and> fst (verify sample_world (ProjectListRequest sample_world sample_session)
        (sample_response 404 ''gone'' None) (initial_state sample_world))
      = Inl (APIRequestError ''Resource not found, logged in as alice\<newline>\<newline>gone'')
   \<and> process_calls (snd (verify sample_world (RegisterAddonRequest sample_world sample_session)
        (sample_response 200 ''[]'' (Some (PList []))) (initial_state sample_world))) = 0"
proof -
  let ?plain = "ProjectListRequest sample_world sample_session"
  let ?form = "RegisterAddonRequest sample_world sample_session"
  let ?r200 = "sample_response 200 ''[]'' (Some (PList []))"
  let ?r404 = "sample_response 404 ''gone'' None"
  let ?st = "initial_state sample_world"
  have h1: "\<not> django_form_mixin ?plain" by (simp add: sample_request_attrs)
  have h2: "ok ?r200" by (simp add: ok_def sample_response_def)
  have h3: "\<not> ok ?r404" by (simp add: ok_def sample_response_def)
  have h4: "django_form_mixin ?form" by (simp add: sample_request_attrs)
  have h5: "session ?plain = HostSession sample_session" by (simp add: sample_request_attrs)
  have z: "process_calls ?st = 0" by (simp add: process_calls_def initial_state_def)
  have dt: "appended_details sample_session ?r404 = ''\<newline>\<newline>gone''"
    by (simp add: appended_details_def structured_lines_def sample_response_def sample_hosts)
  note t200 = verify_delegates_iff_ok[of ?plain ?r200 sample_world ?st]
  note t404 = verify_delegates_iff_ok[of ?plain ?r404 sample_world ?st]
  note tform = verify_delegates_iff_ok[of ?form ?r200 sample_world ?st]
  from t200 h1 h2 have a: "verify sample_world ?plain ?r200 ?st = process sample_world ?plain ?r200 ?st"
    and b: "process_calls (snd (verify sample_world ?plain ?r200 ?st)) = Suc (process_calls ?st)"
    by blast+
  from t404 h1 h3 have c: "process_calls (snd (verify sample_world ?plain ?r404 ?st))
      = process_calls ?st"
    by blast
  from t404 h1 h3 h5 have m: "fst (verify sample_world ?plain ?r404 ?st)
      = Inl (APIRequestError (classified_message sample_world sample_session ?plain ?r404 ?st
           @ appended_details sample_session ?r404))"
    by blast
  from tform h4 have d: "process_calls (snd (verify sample_world ?form ?r200 ?st))
      = process_calls ?st"
    by blast
  from b z have b': "process_calls (snd (verify sample_world ?plain ?r200 ?st)) = 1" by simp
  from c z have c': "process_calls (snd (verify sample_world ?plain ?r404 ?st)) = 0" by simp
  from d z have d': "process_calls (snd (verify sample_world ?form ?r200 ?st)) = 0" by simp
  from m have m': "fst (verify sample_world ?plain ?r404 ?st)
      = Inl (APIRequestError ''Resource not found, logged in as alice\<newline>\<newline>gone'')"
    by (simp add: sample_classified_404 dt)
  show ?thesis by (intro conjI h1 h2 h3 h5 h4 a b' c' m' d')
qed

text \<open>
  Claim C1 as stated fails twice: \<^verbatim>\<open>RegisterAddonRequest\<close> answers a 200 response with
  its success message and never calls \<^verbatim>\<open>process\<close>, and a plain request calls
  \<^verbatim>\<open>process\<close> on a 304 response, which is not a 2xx.
\<close>

theorem verify_not_always_process_counterexample:
  "status_code (sample_response 200 ''{}'' (Some (PDict []))) = 200
   \<and> verify sample_world (RegisterAddonRequest sample_world sample_session)
        (sample_response 200 ''{}'' (Some (PDict []))) (initial_state sample_world)
      = (Inr (RMessage ''Addon successfully registered''), initial_state sample_world)
   \<and> process_calls (initial_state sample_world) = 0
   \<and> status_code (sample_response 304 [] None) = 304
   \<and> process_calls (snd (verify sample_world (ProjectListRequest sample_world sample_session)
        (sample_response 304 [] None) (initial_state sample_world))) = 1
   \<and> fst (verify sample_world (ProjectListRequest sample_world sample_session)
        (sample_response 304 [] None) (initial_state sample_world)) = Inl JSONDecodeError"
  by (simp add: verify_def DjangoFormMixin_verify_def APIRequest_verify_def ok_def
      sample_response_def RegisterAddonRequest_def ProjectListRequest_def APIRequest_def
      process_def process_body_def process_calls_def initial_state_def)


subsection \<open>Raw text and structured lines\<close>

text \<open>
  Claim C4, as amended. When \<^verbatim>\<open>APIRequest.verify\<close> gets a response that is not ok
  (status 400..599), whose body is not empty and has no structured error details, the
  error it raises carries the classified message, an empty line, and then the whole body
  text when the session's debug flag is set and the first 300 characters of the body text
  otherwise; for a body longer than 300 characters that is a text of exactly 300
  characters.
\<close>

theorem raw_body_truncation:
  assumes "session self = HostSession s" and "\<not> ok r"
    and "structured_lines r = None" and "r_text r \<noteq> []"
  shows "fst (APIRequest_verify w self r st) =
     Inl (APIRequestError (classified_message w s self r st @ ''\<newline>\<newline>'' @
            (if debug s then r_text r else take 300 (r_text r))))
   \<and> (300 < length (r_text r) \<longrightarrow> length (take 300 (r_text r)) = 300)"
  using assms by (simp add: APIRequest_verify_message appended_details_def)

theorem raw_body_truncation_witness:
  "session (ProjectListRequest sample_world sample_session) = HostSession sample_session
   \<and> session (ProjectListRequest sample_world debug_session) = HostSession debug_session
   \<and> \<not> ok (sample_response 500 long_body None)
   \<and> structured_lines (sample_response 500 long_body None) = None
   \<and> r_text (sample_response 500 long_body None) \<noteq> []
   \<and> 300 < length (r_text (sample_response 500 long_body None))
   \<and> \<not> debug sample_session
   \<and> debug debug_session
   \<and> fst (APIRequest_verify sample_world (ProjectListRequest sample_world sample_session)
        (sample_response 500 long_body None) (initial_state sample_world))
      = Inl (APIRequestError (''Server error\<newline>\<newline>'' @ replicate 300 (CHR ''x'')))
   \<and> length (replicate 300 (CHR ''x'')) = 300
   \<and> fst (APIRequest_verify sample_world (ProjectListRequest sample_world debug_session)
        (sample_response 500 long_body None) (initial_state sample_world))
      = Inl (APIRequestError (''Server error\<newline>\<newline>'' @ replicate 301 (CHR ''x'')))"
proof -
  let ?r = "sample_response 500 long_body None"
  let ?st = "initial_state sample_world"
  have s1: "session (ProjectListRequest sample_world sample_session) = HostSession sample_session"
    and s2: "session (ProjectListRequest sample_world debug_session) = HostSession debug_session"
    by (simp_all add: sample_request_attrs)
  have h1: "\<not> ok ?r" by (simp add: ok_def sample_response_def)
  have h2: "structured_lines ?r = None" by (simp add: structured_lines_def sample_response_def)
  have h3: "r_text ?r \<noteq> []" by (simp add: sample_response_def long_body_def)
  have h4: "300 < length (r_text ?r)" by (simp add: sample_response_def long_body_def)
  have d1: "\<not> debug sample_session" and d2: "debug debug_session"
    by (simp_all add: sample_hosts)
  have t: "take 300 (r_text ?r) = replicate 300 (CHR ''x'')"
    "r_text ?r = replicate 301 (CHR ''x'')"
    by (simp_all add: sample_response_def long_body_def)
  from raw_body_truncation[OF s1 h1 h2 h3, of sample_world ?st]
  have "fst (APIRequest_verify sample_world (ProjectListRequest sample_world sample_session)
        ?r ?st)
      = Inl (APIRequestError (classified_message sample_world sample_session
               (ProjectListRequest sample_world sample_session) ?r ?st @ ''\<newline>\<newline>'' @
             (if debug sample_session then r_text ?r else take 300 (r_text ?r))))"
    by (rule conjunct1)
  then have a: "fst (APIRequest_verify sample_world
        (ProjectListRequest sample_world sample_session) ?r ?st)
      = Inl (APIRequestError (''Server error\<newline>\<newline>'' @ replicate 300 (CHR ''x'')))"
    by (simp add: sample_classified_500 d1 t)
  from raw_body_truncation[OF s2 h1 h2 h3, of sample_world ?st]
  have "fst (APIRequest_verify sample_world (ProjectListRequest sample_world debug_session)
        ?r ?st)
      = Inl (APIRequestError (classified_message sample_world debug_session
               (ProjectListRequest sample_world debug_session) ?r ?st @ ''\<newline>\<newline>'' @
             (if debug debug_session then r_text ?r else take 300 (r_text ?r))))"
    by (rule conjunct1)
  then have b: "fst (APIRequest_verify sample_world
        (ProjectListRequest sample_world debug_session) ?r ?st)
      = Inl (APIRequestError (''Server error\<newline>\<newline>'' @ replicate 301 (CHR ''x'')))"
    by (simp add: sample_classified_500 d2 t)
  have l: "length (replicate 300 (CHR ''x'')) = 300" by simp
  show ?thesis by (intro conjI s1 s2 h1 h2 h3 h4 d1 d2 a l b)
qed

text \<open>
  Claim C4 as stated fails on a response that is not a 2xx but ok: a 304 response with a
  body of 301 characters that is not JSON raises no error at all, and a request with the
  text strategy returns the whole body, though the session is not in debug mode.
\<close>

theorem raw_body_ok_status_counterexample:
  "status_code (sample_response 304 long_body None) = 304
   \<and> length (r_text (sample_response 304 long_body None)) = 301
   \<and> r_json (sample_response 304 long_body None) = None
   \<and> \<not> debug sample_session
   \<and> fst (verify sample_world (UploadAddonRequest sample_world sample_session)
        (sample_response 304 long_body None) (initial_state sample_world))
      = Inr (RText (replicate 301 (CHR ''x'')))"
  by (simp add: verify_def APIRequest_verify_def ok_def sample_request_attrs sample_hosts
      process_def process_body_def sample_response_def long_body_def)

lemma as_strs_map_PStr: "as_strs (map PStr errs) = Some errs"
  by (induction errs) simp_all

lemma lines_of_strings: "lines_of (PList (map PStr errs)) = Some errs"
  by (simp only: lines_of.simps those_the_str as_strs_map_PStr)

text \<open>
  Claim C10. The structured errors come from \<^verbatim>\<open>response.json()\<close>, the decoding of the
  whole body: when there are structured lines, the error \<^verbatim>\<open>APIRequest.verify\<close> raises
  carries the classified message, an empty line and all of these lines, whatever the
  debug flag is, and for a list of strings under \<^verbatim>\<open>non_field_errors\<close> these lines are all
  of its elements, joined by newlines. Nothing is appended exactly when the body text is
  empty, with or without truncation.
\<close>

theorem structured_errors_not_truncated:
  assumes "\<not> ok r" and "structured_lines r = Some ls"
  shows "fst (APIRequest_verify w (self\<lparr>session := HostSession (s\<lparr>debug := d\<rparr>)\<rparr>) r st) =
     Inl (APIRequestError
       (if r_text r = [] then classified_message w s self r st
        else classified_message w s self r st @ ''\<newline>\<newline>'' @ ls))
   \<and> (\<forall>kvs errs. r_json r = Some (PDict kvs)
          \<and> map_of kvs ''non_field_errors'' = Some (PList (map PStr errs))
        \<longrightarrow> ls = join ''\<newline>'' errs)"
proof -
  let ?self = "self\<lparr>session := HostSession (s\<lparr>debug := d\<rparr>)\<rparr>"
  have c: "classified_message w (s\<lparr>debug := d\<rparr>) ?self r st = classified_message w s self r st"
    by (simp add: classified_message_def table_message_def stored_login_def
        split: option.splits)
  have "fst (APIRequest_verify w ?self r st) =
     Inl (APIRequestError (classified_message w (s\<lparr>debug := d\<rparr>) ?self r st
        @ appended_details (s\<lparr>debug := d\<rparr>) r))"
    using assms(1) by (intro APIRequest_verify_message) simp_all
  then have m: "fst (APIRequest_verify w ?self r st) =
     Inl (APIRequestError
       (if r_text r = [] then classified_message w s self r st
        else classified_message w s self r st @ ''\<newline>\<newline>'' @ ls))"
    using assms(2) by (simp add: c appended_details_def)
  have l: "\<forall>kvs errs. r_json r = Some (PDict kvs)
          \<and> map_of kvs ''non_field_errors'' = Some (PList (map PStr errs))
        \<longrightarrow> ls = join ''\<newline>'' errs"
    using assms(2)
    by (auto simp add: structured_lines_def lines_of_strings simp del: lines_of.simps)
  from m l show ?thesis by (rule conjI)
qed

lemma sample_errors_lines:
  "structured_lines sample_errors_response = Some (replicate 301 (CHR ''x'') @ ''\<newline>b'')"
  by (simp add: sample_errors_response_def sample_response_def structured_lines_def
      long_body_def)

theorem structured_errors_not_truncated_witness:
  "\<not> ok sample_errors_response
   \<and> structured_lines sample_errors_response
      = Some (replicate 301 (CHR ''x'') @ ''\<newline>b'')
   \<and> length (r_text sample_errors_response) = 332
   \<and> fst (APIRequest_verify sample_world
          ((ProjectListRequest sample_world sample_session)
             \<lparr>session := HostSession (sample_session\<lparr>debug := False\<rparr>)\<rparr>)
          sample_errors_response (initial_state sample_world))
      = Inl (APIRequestError
          (''Server error\<newline>\<newline>'' @ replicate 301 (CHR ''x'') @ ''\<newline>b''))
   \<and> fst (APIRequest_verify sample_world
          ((ProjectListRequest sample_world sample_session)
             \<lparr>session := HostSession (sample_session\<lparr>debug := True\<rparr>)\<rparr>)
          sample_errors_response (initial_state sample_world))
      = Inl (APIRequestError
          (''Server error\<newline>\<newline>'' @ replicate 301 (CHR ''x'') @ ''\<newline>b''))"
proof -
  let ?r = sample_errors_response
  let ?self = "ProjectListRequest sample_world sample_session"
  let ?st = "initial_state sample_world"
  have h1: "\<not> ok ?r"
    by (simp add: ok_def sample_errors_response_def sample_response_def)
  note h2 = sample_errors_lines
  have n: "length (r_text ?r) = 332"
    by (simp add: sample_errors_response_def sample_response_def sample_errors_text_def
        quoted_def long_body_def)
  then have ne: "r_text ?r \<noteq> []" by auto
  have cm: "classified_message sample_world sample_session ?self ?r ?st = ''Server error''"
    unfolding sample_errors_response_def by (rule sample_classified_500)
  from structured_errors_not_truncated[OF h1 h2, where w = sample_world and self = ?self
      and s = sample_session and d = False and st = ?st]
  have "fst (APIRequest_verify sample_world
          (?self\<lparr>session := HostSession (sample_session\<lparr>debug := False\<rparr>)\<rparr>) ?r ?st)
      = Inl (APIRequestError
       (if r_text ?r = [] then classified_message sample_world sample_session ?self ?r ?st
        else classified_message sample_world sample_session ?self ?r ?st @ ''\<newline>\<newline>''
          @ (replicate 301 (CHR ''x'') @ ''\<newline>b'')))"
    by (rule conjunct1)
  then have a: "fst (APIRequest_verify sample_world
          (?self\<lparr>session := HostSession (sample_session\<lparr>debug := False\<rparr>)\<rparr>) ?r ?st)
      = Inl (APIRequestError
          (''Server error\<newline>\<newline>'' @ replicate 301 (CHR ''x'') @ ''\<newline>b''))"
    by (simp add: cm ne)
  from structured_errors_not_truncated[OF h1 h2, where w = sample_world and self = ?self
      and s = sample_session and d = True and st = ?st]
  have "fst (APIRequest_verify sample_world
          (?self\<lparr>session := HostSession (sample_session\<lparr>debug := True\<rparr>)\<rparr>) ?r ?st)
      = Inl (APIRequestError
       (if r_text ?r = [] then classified_message sample_world sample_session ?self ?r ?st
        else classified_message sample_world sample_session ?self ?r ?st @ ''\<newline>\<newline>''
          @ (replicate 301 (CHR ''x'') @ ''\<newline>b'')))"
    by (rule conjunct1)
  then have b: "fst (APIRequest_verify sample_world
          (?self\<lparr>session := HostSession (sample_session\<lparr>debug := True\<rparr>)\<rparr>) ?r ?st)
      = Inl (APIRequestError
          (''Server error\<newline>\<newline>'' @ replicate 301 (CHR ''x'') @ ''\<newline>b''))"
    by (simp add: cm ne)
  show ?thesis by (intro conjI h1 h2 n a b)
qed

subsection \<open>A body that is not JSON under the form mixin\<close>

text \<open>
  Claim C5 at a failing input. \<^verbatim>\<open>RegisterAddonRequest\<close> takes \<^verbatim>\<open>verify\<close> from
  \<^verbatim>\<open>DjangoFormMixin\<close>, which decodes the body of a 400 response outside any
  \<^verbatim>\<open>try\<close>: a body that is not JSON makes the decoding error leave \<^verbatim>\<open>verify\<close>. The
  same response given to a request without the mixin raises the classified error with the
  raw text appended.
\<close>

theorem django_form_verify_decode_failure:
  "status_code (sample_response 400 ''<html>Bad Request</html>'' None) = 400
   \<and> r_text (sample_response 400 ''<html>Bad Request</html>'' None) \<noteq> []
   \<and> verify sample_world (RegisterAddonRequest sample_world sample_session)
        (sample_response 400 ''<html>Bad Request</html>'' None) (initial_state sample_world)
      = (Inl JSONDecodeError, initial_state sample_world)
   \<and> fst (verify sample_world (ProjectListRequest sample_world sample_session)
        (sample_response 400 ''<html>Bad Request</html>'' None) (initial_state sample_world))
      = Inl (APIRequestError ''Bad request\<newline>\<newline><html>Bad Request</html>'')"
proof -
  let ?r = "sample_response 400 ''<html>Bad Request</html>'' None"
  have n: "\<not> ok ?r" by (simp add: ok_def sample_response_def)
  have a: "status_code ?r = 400" and b: "r_text ?r \<noteq> []"
    by (simp_all add: sample_response_def)
  have c: "verify sample_world (RegisterAddonRequest sample_world sample_session) ?r
        (initial_state sample_world) = (Inl JSONDecodeError, initial_state sample_world)"
    by (simp add: verify_def DjangoFormMixin_verify_def sample_request_attrs ok_def
        sample_response_def)
  have cm: "classified_message sample_world sample_session
        (ProjectListRequest sample_world sample_session) ?r (initial_state sample_world)
      = ''Bad request''"
    by (simp add: classified_message_def table_message_def sample_logins sample_table
        sample_response_def)
  have ad: "appended_details sample_session ?r = ''\<newline>\<newline><html>Bad Request</html>''"
    by (simp add: appended_details_def structured_lines_def sample_response_def sample_hosts)
  have d: "fst (verify sample_world (ProjectListRequest sample_world sample_session) ?r
        (initial_state sample_world))
      = Inl (APIRequestError ''Bad request\<newline>\<newline><html>Bad Request</html>'')"
    using APIRequest_verify_message[OF sample_request_attrs(1)[of sample_world sample_session] n,
        of sample_world "initial_state sample_world"]
    by (simp add: verify_def sample_request_attrs cm ad)
  show ?thesis by (intro conjI a b c d)
qed

subsection \<open>The shared table of error messages\<close>

text \<open>
  Claim C3 at a failing input. A request on a session whose host has the stored login
  \<open>alice\<close> verifies a 500 response; after that, a request on another session, for
  whose host no login is stored, gets the message personalised for \<open>alice\<close> on a
  404 response: the assignment went to the dictionary all instances share. Before it, the
  same request got the generic message.
\<close>

theorem shared_error_table_leak:
  "get_login sample_world (ProjectListRequest sample_world sample_session)
      = Inr (Some ''alice'')
   \<and> get_login sample_world (ProjectListRequest sample_world other_session) = Inr None
   \<and> response_code_error_map (initial_state sample_world) 404 = Some ''Resource not found''
   \<and> fst (verify sample_world (ProjectListRequest sample_world other_session)
        (sample_response 404 [] None) (initial_state sample_world))
      = Inl (APIRequestError ''Resource not found'')
   \<and> response_code_error_map
        (snd (verify sample_world (ProjectListRequest sample_world sample_session)
          (sample_response 500 [] None) (initial_state sample_world))) 404
      = Some ''Resource not found, logged in as alice''
   \<and> fst (verify sample_world (ProjectListRequest sample_world other_session)
        (sample_response 404 [] None)
        (snd (verify sample_world (ProjectListRequest sample_world sample_session)
          (sample_response 500 [] None) (initial_state sample_world))))
      = Inl (APIRequestError ''Resource not found, logged in as alice'')"
  by (simp add: verify_def APIRequest_verify_def ok_def
      sample_response_def ProjectListRequest_def APIRequest_def
      get_error_code_map_def get_login_def sample_world_def
      sample_session_def other_session_def SingleHostSession_init_def env_proxies_def
      rstrip_slash_def initial_state_def initial_response_code_error_map_def
      sample_messages_def Let_def)

text \<open>
  As long as the shared table is the one the module defines, the message for a 404
  response names the resolved login, and is the generic one when nothing is resolved.
\<close>

lemma not_found_message:
  "response_code_error_map st = initial_response_code_error_map (msgs w) \<Longrightarrow>
   status_code r = 404 \<Longrightarrow>
   classified_message w s self r st =
     (case stored_login w s of
        None \<Rightarrow> RESOURCE_NOT_FOUND_ANONYMOUS (msgs w)
      | Some l \<Rightarrow> if l \<noteq> [] then RESOURCE_NOT_FOUND (msgs w) l
                  else RESOURCE_NOT_FOUND_ANONYMOUS (msgs w))"
  by (simp add: classified_message_def table_message_def
      initial_response_code_error_map_def split: option.splits)


subsection \<open>The versioned-endpoint rewrite\<close>

lemma replace_first_absent:
  "old \<noteq> [] \<Longrightarrow> \<not> contains old s \<Longrightarrow> replace_first old new s = s"
  by (induction s) simp_all

lemma take_through_butlast:
  assumes "old \<noteq> []"
  shows "take (length old) (c # pre @ old @ post) = take (length old) (c # pre @ butlast old)"
proof -
  obtain b l where o: "old = b @ [l]" using assms by (metis append_butlast_last_id)
  have "take (length old) ((c # pre @ b) @ (l # post)) = take (length old) (c # pre @ b)"
    unfolding take_append by (simp add: o)
  then show ?thesis by (simp add: o)
qed

lemma replace_first_at:
  "old \<noteq> [] \<Longrightarrow> \<not> contains old (pre @ butlast old) \<Longrightarrow>
   replace_first old new (pre @ old @ post) = pre @ new @ post"
proof (induction pre)
  case Nil
  then obtain c cs where "old = c # cs" by (cases old) auto
  then show ?case by simp
next
  case (Cons c pre)
  from Cons.prems have a: "take (length old) (c # pre @ butlast old) \<noteq> old"
    and b: "\<not> contains old (pre @ butlast old)" by simp_all
  from a Cons.prems(1) have "take (length old) (c # pre @ old @ post) \<noteq> old"
    by (simp only: take_through_butlast not_False_eq_True)
  with Cons.IH[OF Cons.prems(1) b] show ?case by simp
qed

lemma v3_call:
  "kw ''v3_compatibilty'' = Some (PBool True) \<Longrightarrow>
   SingleHostSession_request_call w s m u kw =
     \<lparr>c_method = m,
      c_url = replace_first ''control'' ''api'' (urljoin w (host s) u),
      c_kwargs = (pop (pop kw ''v3_compatibilty'') ''data'')
         (''json'' \<mapsto> (case kw ''data'' of None \<Rightarrow> PDict [] | Some d \<Rightarrow> d))\<rparr>"
  by (simp add: SingleHostSession_request_call_def Let_def pop_def)

lemma v3_request_call:
  assumes "session self = HostSession s" and "v3 self" and "get_url w self = Inr u"
    and "kwargs ''data'' = None" and "kwargs ''files'' = None" and "kwargs ''headers'' = None"
    and "kwargs ''params'' = None" and "kwargs ''v3_compatibilty'' = None"
  shows "\<exists>kw. request w self kwargs st =
         handle_outcome w self
           (send w s
              (SingleHostSession_request_call w s (http_method self) u kw))
           (snd (get_headers self st))
     \<and> kw ''v3_compatibilty'' = Some (PBool True) \<and> kw ''data'' = Some (data self)"
proof -
  obtain a st1 where g: "get_headers self st = (a, st1)" by (cases "get_headers self st")
  let ?kw1 = "(if strategy self = FileResponse then kwargs(''stream'' \<mapsto> PBool True) else kwargs)"
  let ?kw = "?kw1(''v3_compatibilty'' \<mapsto> PBool True, ''data'' \<mapsto> data self,
       ''files'' \<mapsto> files_arg self, ''headers'' \<mapsto> headers_value (heap st1 a),
       ''params'' \<mapsto> params self)"
  have "request w self kwargs st =
         handle_outcome w self
           (send w s
              (SingleHostSession_request_call w s (http_method self) u ?kw))
           (snd (get_headers self st))"
    using assms g
    by (simp add: request_def APIV3Request_request_def APIRequest_request_def
        session_request_def SingleHostSession_request_def request_kwargs_def Let_def)
  moreover have "?kw ''v3_compatibilty'' = Some (PBool True)" by simp
  moreover have "?kw ''data'' = Some (data self)" by simp
  ultimately show ?thesis by blast
qed

text \<open>
  Claim C2. A request of a class derived from \<^verbatim>\<open>APIV3Request\<close> on a
  \<^verbatim>\<open>SingleHostSession\<close>, dispatched with keyword arguments that do not collide with its
  own, reaches the transport of that session with the
  resolved URL in which the leftmost occurrence of \<open>control\<close> is replaced by
  \<open>api\<close> and everything after it is kept as it is (a URL without \<open>control\<close> is
  unchanged), with the request's data under \<^verbatim>\<open>json\<close> and no \<^verbatim>\<open>data\<close> argument.
\<close>

theorem v3_compatibility_rewrite:
  assumes "session self = HostSession s" and "v3 self" and "get_url w self = Inr u"
    and "kwargs ''data'' = None" and "kwargs ''files'' = None" and "kwargs ''headers'' = None"
    and "kwargs ''params'' = None" and "kwargs ''v3_compatibilty'' = None"
  shows "\<exists>call. request w self kwargs st =
            handle_outcome w self (send w s call) (snd (get_headers self st))
     \<and> c_url call = replace_first ''control'' ''api'' (urljoin w (host s) u)
     \<and> c_kwargs call ''json'' = Some (data self)
     \<and> c_kwargs call ''data'' = None
     \<and> (\<forall>pre post. urljoin w (host s) u = pre @ ''control'' @ post
            \<and> \<not> contains ''control'' (pre @ ''contro'')
          \<longrightarrow> c_url call = pre @ ''api'' @ post)
     \<and> (\<not> contains ''control'' (urljoin w (host s) u)
          \<longrightarrow> c_url call = urljoin w (host s) u)"
proof -
  let ?res = "urljoin w (host s) u"
  from v3_request_call[OF assms, of st] obtain kw where
    r: "request w self kwargs st =
         handle_outcome w self
           (send w s
              (SingleHostSession_request_call w s (http_method self) u kw))
           (snd (get_headers self st))"
    and v: "kw ''v3_compatibilty'' = Some (PBool True)" and kd: "kw ''data'' = Some (data self)"
    by blast
  let ?call = "SingleHostSession_request_call w s (http_method self) u kw"
  note c = v3_call[where kw = kw and w = w and s = s and m = "http_method self"
      and u = u, OF v]
  have u: "c_url ?call = replace_first ''control'' ''api'' ?res" by (simp add: c)
  have j: "c_kwargs ?call ''json'' = Some (data self)" by (simp add: c kd)
  have d: "c_kwargs ?call ''data'' = None" by (simp add: c pop_def)
  have f: "\<forall>pre post. ?res = pre @ ''control'' @ post \<and> \<not> contains ''control'' (pre @ ''contro'')
          \<longrightarrow> c_url ?call = pre @ ''api'' @ post"
  proof (intro allI impI)
    fix pre post
    assume h: "?res = pre @ ''control'' @ post \<and> \<not> contains ''control'' (pre @ ''contro'')"
    have "replace_first ''control'' ''api'' (pre @ ''control'' @ post) = pre @ ''api'' @ post"
      by (rule replace_first_at) (use h in simp_all)
    with h u show "c_url ?call = pre @ ''api'' @ post" by simp
  qed
  have n: "\<not> contains ''control'' ?res \<longrightarrow> c_url ?call = ?res"
    using u by (simp add: replace_first_absent)
  from r u j d f n show ?thesis by blast
qed

theorem v3_compatibility_rewrite_witness:
  "v3 (ControlPanelRequest sample_world sample_session)
   \<and> get_url sample_world (ControlPanelRequest sample_world sample_session)
       = Inr ''/apps/v3/control-panel/''
   \<and> (\<exists>call. request sample_world (ControlPanelRequest sample_world sample_session) Map.empty
                (initial_state sample_world)
              = handle_outcome sample_world (ControlPanelRequest sample_world sample_session)
                  (send sample_world sample_session call)
                  (snd (get_headers (ControlPanelRequest sample_world sample_session)
                          (initial_state sample_world)))
        \<and> c_url call = ''https://api.example.com/apps/v3/control-panel/''
        \<and> c_kwargs call ''json'' = Some (PDict [(''name'', PStr ''nightly'')])
        \<and> c_kwargs call ''data'' = None)"
proof -
  let ?self = "ControlPanelRequest sample_world sample_session"
  have h1: "v3 ?self"
    by (simp add: ControlPanelRequest_def CreateBackupRequest_def APIRequest_def)
  have h2: "get_url sample_world ?self = Inr ''/apps/v3/control-panel/''"
    by (simp add: get_url_def ControlPanelRequest_def CreateBackupRequest_def APIRequest_def
        sample_world_def)
  have s: "session ?self = HostSession sample_session"
    by (simp add: ControlPanelRequest_def CreateBackupRequest_def APIRequest_def)
  have d: "data ?self = PDict [(''name'', PStr ''nightly'')]"
    by (simp add: ControlPanelRequest_def CreateBackupRequest_def APIRequest_def)
  have hs: "host sample_session = ''https://control.example.com''"
    by (simp add: sample_session_def SingleHostSession_init_def Let_def rstrip_slash_def)
  have j: "urljoin sample_world (host sample_session) ''/apps/v3/control-panel/''
      = ''https://'' @ ''control'' @ ''.example.com/apps/v3/control-panel/''"
    by (simp only: hs) (simp add: sample_world_def)
  have n: "\<not> contains ''control'' (''https://'' @ ''contro'')"
    by simp
  from v3_compatibility_rewrite[OF s h1 h2, of Map.empty "initial_state sample_world"]
  obtain call where
    r: "request sample_world ?self Map.empty (initial_state sample_world)
          = handle_outcome sample_world ?self (send sample_world sample_session call)
              (snd (get_headers ?self (initial_state sample_world)))"
    and js: "c_kwargs call ''json'' = Some (data ?self)"
    and da: "c_kwargs call ''data'' = None"
    and f: "\<forall>pre post. urljoin sample_world (host sample_session) ''/apps/v3/control-panel/''
              = pre @ ''control'' @ post \<and> \<not> contains ''control'' (pre @ ''contro'')
            \<longrightarrow> c_url call = pre @ ''api'' @ post"
    by blast
  have "c_url call = ''https://'' @ ''api'' @ ''.example.com/apps/v3/control-panel/''"
    by (rule f[rule_format, OF conjI[OF j n]])
  then have u: "c_url call = ''https://api.example.com/apps/v3/control-panel/''" by simp
  from r js da u have "request sample_world ?self Map.empty (initial_state sample_world)
          = handle_outcome sample_world ?self (send sample_world sample_session call)
              (snd (get_headers ?self (initial_state sample_world)))
        \<and> c_url call = ''https://api.example.com/apps/v3/control-panel/''
        \<and> c_kwargs call ''json'' = Some (PDict [(''name'', PStr ''nightly'')])
        \<and> c_kwargs call ''data'' = None"
    by (simp only: d simp_thms)
  then have "\<exists>call. request sample_world ?self Map.empty (initial_state sample_world)
          = handle_outcome sample_world ?self (send sample_world sample_session call)
              (snd (get_headers ?self (initial_state sample_world)))
        \<and> c_url call = ''https://api.example.com/apps/v3/control-panel/''
        \<and> c_kwargs call ''json'' = Some (PDict [(''name'', PStr ''nightly'')])
        \<and> c_kwargs call ''data'' = None" by (rule exI[where x = call])
  with h1 h2 show ?thesis by (intro conjI)
qed

subsection \<open>The form-validation report\<close>

lemma format_errors_strings:
  "format_errors w formatted (map PStr es) = formatted @ concat (map bullet es)"
  by (induction es arbitrary: formatted) (simp_all add: py_format_def bullet_def)

lemma format_fields_strings:
  "format_fields w formatted (map (\<lambda>fe. (fst fe, PList (map PStr (snd fe)))) fes)
     = Inr (formatted @ concat (map section_text fes))"
  by (induction fes arbitrary: formatted)
    (simp_all add: format_errors_strings section_text_def)

lemma last_dropWhile:
  assumes "dropWhile P xs \<noteq> []"
  shows "last (dropWhile P xs) = last xs"
proof -
  have "last (takeWhile P xs @ dropWhile P xs) = last (dropWhile P xs)"
    using assms by (rule last_appendR)
  then show ?thesis by simp
qed

lemma strip_nl_ends:
  assumes "strip_nl s \<noteq> []"
  shows "hd (strip_nl s) \<noteq> CHR ''\<newline>'' \<and> last (strip_nl s) \<noteq> CHR ''\<newline>''"
proof -
  define P where "P = (\<lambda>c. c = CHR ''\<newline>'')"
  define t where "t = dropWhile P s"
  define u where "u = dropWhile P (rev t)"
  have r: "strip_nl s = rev u" by (simp add: strip_nl_def u_def t_def P_def)
  with assms have u: "u \<noteq> []" by simp
  have t: "t \<noteq> []"
  proof
    assume "t = []"
    then have "u = []" by (simp add: u_def)
    with u show False by simp
  qed
  from u have "\<not> P (hd u)" unfolding u_def by (rule hd_dropWhile)
  then have hu: "hd u \<noteq> CHR ''\<newline>''" by (simp add: P_def)
  from t have "\<not> P (hd t)" unfolding t_def by (rule hd_dropWhile)
  then have ht: "hd t \<noteq> CHR ''\<newline>''" by (simp add: P_def)
  from u have "last u = last (rev t)" unfolding u_def by (rule last_dropWhile)
  with t have lu: "last u = hd t" by (simp add: last_rev)
  from u have "hd (rev u) = last u" by (simp add: hd_rev)
  moreover from u have "last (rev u) = hd u" by (simp add: last_rev)
  ultimately show ?thesis using hu lu ht by (simp add: r)
qed

lemma strip_nl_nonempty: "c \<noteq> CHR ''\<newline>'' \<Longrightarrow> strip_nl (c # s) \<noteq> []"
  by (auto simp add: strip_nl_def dropWhile_eq_Nil_conv)

lemma report_spec_nonempty: "report_spec fes \<noteq> []"
  by (simp add: report_spec_def report_header_def strip_nl_nonempty)

text \<open>
  Claim C6, as amended. For a request with \<^verbatim>\<open>DjangoFormMixin\<close>: a response with
  \<^verbatim>\<open>response.ok\<close> (any status outside 400..599, so every 2xx) yields the fixed success
  message; a 400 response whose decoded body maps field names to lists of error strings
  yields the report of the specification (one section per field in insertion order, one
  bullet per error, an empty line between sections), which is not empty and neither
  starts nor ends with a newline; any other 4xx or 5xx status is handled by
  \<^verbatim>\<open>APIRequest.verify\<close>.
\<close>

theorem form_validation_report:
  assumes that: "django_form_mixin self"
  shows "(ok r \<longrightarrow> verify w self r st = (Inr (RMessage (success_message self)), st))
   \<and> (status_code r = 400 \<and> r_json r = Some (field_errors fes) \<longrightarrow>
        verify w self r st = (Inr (RMessage (report_spec fes)), st))
   \<and> (\<not> ok r \<and> status_code r \<noteq> 400 \<longrightarrow> verify w self r st = APIRequest_verify w self r st)
   \<and> report_spec fes \<noteq> []
   \<and> hd (report_spec fes) \<noteq> CHR ''\<newline>''
   \<and> last (report_spec fes) \<noteq> CHR ''\<newline>''"
proof -
  have a: "ok r \<longrightarrow> verify w self r st = (Inr (RMessage (success_message self)), st)"
    using that by (simp add: verify_def DjangoFormMixin_verify_def)
  have b: "status_code r = 400 \<and> r_json r = Some (field_errors fes) \<longrightarrow>
        verify w self r st = (Inr (RMessage (report_spec fes)), st)"
    using that
    by (simp add: verify_def DjangoFormMixin_verify_def ok_def field_errors_def
        format_fields_strings report_spec_def)
  have c: "\<not> ok r \<and> status_code r \<noteq> 400 \<longrightarrow> verify w self r st = APIRequest_verify w self r st"
    using that by (simp add: verify_def DjangoFormMixin_verify_def)
  from a b c report_spec_nonempty[of fes] strip_nl_ends[of "report_header @ concat (map section_text fes)"]
  show ?thesis by (simp add: report_spec_def)
qed

lemma sample_report:
  "report_spec sample_field_errors =
     ''There was an error submitting your request:\<newline>'' @
     ''-------------------------------------------\<newline>'' @
     ''\<newline>'' @
     '' - name\<newline>'' @
     ''   - required\<newline>'' @
     ''\<newline>'' @
     '' - email\<newline>'' @
     ''   - invalid\<newline>'' @
     ''   - too long''"
  by (simp add: report_spec_def sample_field_errors_def section_text_def bullet_def
      report_header_def strip_nl_def)

theorem form_validation_report_witness:
  "django_form_mixin (RegisterAddonRequest sample_world sample_session)
   \<and> ok (sample_response 200 ''{}'' (Some (PDict [])))
   \<and> verify sample_world (RegisterAddonRequest sample_world sample_session)
        (sample_response 200 ''{}'' (Some (PDict []))) (initial_state sample_world)
      = (Inr (RMessage ''Addon successfully registered''), initial_state sample_world)
   \<and> verify sample_world (RegisterAddonRequest sample_world sample_session)
        (sample_response 400 ''{...}'' (Some (field_errors sample_field_errors)))
        (initial_state sample_world)
      = (Inr (RMessage
           (''There was an error submitting your request:\<newline>'' @
            ''-------------------------------------------\<newline>'' @
            ''\<newline>'' @
            '' - name\<newline>'' @
            ''   - required\<newline>'' @
            ''\<newline>'' @
            '' - email\<newline>'' @
            ''   - invalid\<newline>'' @
            ''   - too long'')), initial_state sample_world)
   \<and> \<not> ok (sample_response 500 [] None)
   \<and> verify sample_world (RegisterAddonRequest sample_world sample_session)
        (sample_response 500 [] None) (initial_state sample_world)
      = APIRequest_verify sample_world (RegisterAddonRequest sample_world sample_session)
        (sample_response 500 [] None) (initial_state sample_world)"
proof -
  let ?self = "RegisterAddonRequest sample_world sample_session"
  let ?st = "initial_state sample_world"
  have h: "django_form_mixin ?self"
    by (simp add: RegisterAddonRequest_def APIRequest_def)
  have s: "success_message ?self = ''Addon successfully registered''"
    by (simp add: RegisterAddonRequest_def APIRequest_def)
  have o: "ok (sample_response 200 ''{}'' (Some (PDict [])))"
    by (simp add: ok_def sample_response_def)
  have b: "status_code (sample_response 400 ''{...}'' (Some (field_errors sample_field_errors)))
      = 400
    \<and> r_json (sample_response 400 ''{...}'' (Some (field_errors sample_field_errors)))
      = Some (field_errors sample_field_errors)"
    by (simp add: sample_response_def)
  have n: "\<not> ok (sample_response 500 [] None) \<and> status_code (sample_response 500 [] None) \<noteq> 400"
    by (simp add: ok_def sample_response_def)
  from form_validation_report[OF h, of "sample_response 200 ''{}'' (Some (PDict []))"
      sample_world ?st] o
  have c1: "verify sample_world ?self (sample_response 200 ''{}'' (Some (PDict []))) ?st
      = (Inr (RMessage (success_message ?self)), ?st)"
    by blast
  from form_validation_report[OF h,
      of "sample_response 400 ''{...}'' (Some (field_errors sample_field_errors))"
      sample_world ?st sample_field_errors] b
  have c2: "verify sample_world ?self
        (sample_response 400 ''{...}'' (Some (field_errors sample_field_errors))) ?st
      = (Inr (RMessage (report_spec sample_field_errors)), ?st)"
    by blast
  from form_validation_report[OF h, of "sample_response 500 [] None" sample_world ?st] n
  have c3: "verify sample_world ?self (sample_response 500 [] None) ?st
      = APIRequest_verify sample_world ?self (sample_response 500 [] None) ?st"
    by blast
  from n have n': "\<not> ok (sample_response 500 [] None)" by (rule conjunct1)
  show ?thesis
    unfolding c1 c2 c3 s sample_report
    by (intro conjI h o n' refl)
qed

text \<open>
  Claim C6 as stated fails on a status that is neither 2xx nor 400 but ok: a 304 response
  yields the success message, where the default \<^verbatim>\<open>verify\<close> would have handed the
  response to \<^verbatim>\<open>process\<close>.
\<close>

theorem form_validation_other_status_counterexample:
  "status_code (sample_response 304 [] None) = 304
   \<and> verify sample_world (RegisterAddonRequest sample_world sample_session)
        (sample_response 304 [] None) (initial_state sample_world)
      = (Inr (RMessage ''Addon successfully registered''), initial_state sample_world)
   \<and> fst (APIRequest_verify sample_world (RegisterAddonRequest sample_world sample_session)
        (sample_response 304 [] None) (initial_state sample_world))
      = Inl JSONDecodeError"
  by (simp add: verify_def DjangoFormMixin_verify_def APIRequest_verify_def ok_def
      sample_response_def RegisterAddonRequest_def APIRequest_def
      process_def process_body_def)

subsection \<open>Streamed download to a file\<close>

lemma concat_nonempty_chunks: "concat (nonempty_chunks cs) = concat cs"
  by (induction cs) (simp_all add: nonempty_chunks_def)

lemma write_chunks_file:
  "buffer st = [] \<Longrightarrow> files st p = Some c0 \<Longrightarrow>
   files (write_chunks p cs st) p = Some (c0 @ concat (nonempty_chunks cs))
   \<and> buffer (write_chunks p cs st) = []"
proof (induction cs arbitrary: st c0)
  case Nil
  then show ?case by (simp add: nonempty_chunks_def)
next
  case (Cons chunk rest)
  show ?case
  proof (cases "chunk = []")
    case True
    with Cons.IH[OF Cons.prems] show ?thesis by (simp add: nonempty_chunks_def)
  next
    case False
    let ?st1 = "f_flush p (f_write chunk st)"
    have b: "buffer ?st1 = []" by (simp add: f_flush_def f_write_def)
    have f: "files ?st1 p = Some (c0 @ chunk)"
      using Cons.prems by (simp add: f_flush_def f_write_def on_disk_def)
    from Cons.IH[OF b f] False show ?thesis
      by (simp add: nonempty_chunks_def)
  qed
qed

lemma write_chunks_other_files:
  "q \<noteq> p \<Longrightarrow> files (write_chunks p cs st) q = files st q"
  by (induction cs arbitrary: st) (simp_all add: f_flush_def f_write_def)

lemma write_chunks_trace:
  "trace (write_chunks p cs st) = trace st @ write_events (nonempty_chunks cs)"
  by (induction cs arbitrary: st)
    (simp_all add: f_flush_def f_write_def nonempty_chunks_def write_events_def)

lemma write_chunks_temp_dirs:
  "temp_dirs_created (write_chunks p cs st) = temp_dirs_created st"
  by (induction cs arbitrary: st) (simp_all add: f_flush_def f_write_def)

lemma FileResponse_process_unfold:
  assumes "can_open w (dump_path w self st)"
  shows "FileResponse_process w self r st =
     (Inr (RPath (dump_path w self st)),
      f_close (dump_path w self st)
        (write_chunks (dump_path w self st) (iter_content r 1024)
          (f_open (dump_path w self st)
             (if uses_temp_dir self then snd (create_temp_dir w st) else st))))"
proof (cases "uses_temp_dir self")
  case True
  then have d: "(case directory self of
               None \<Rightarrow> create_temp_dir w st
             | Some d \<Rightarrow> if d \<noteq> [] then (d, st) else create_temp_dir w st)
      = create_temp_dir w st"
    by (simp add: uses_temp_dir_def split: option.splits)
  have p: "path_join w (fst (create_temp_dir w st))
        (case filename self of None \<Rightarrow> ''data.tar.gz''
         | Some f \<Rightarrow> if f \<noteq> [] then f else ''data.tar.gz'') = dump_path w self st"
    using True by (simp add: dump_path_def dump_name_def dump_dir_def create_temp_dir_def)
  show ?thesis
    using assms True
    by (simp add: FileResponse_process_def d p Let_def split_beta)
next
  case False
  then obtain dr where dr: "directory self = Some dr" "dr \<noteq> []"
    by (auto simp add: uses_temp_dir_def split: option.splits)
  have p: "path_join w dr
        (case filename self of None \<Rightarrow> ''data.tar.gz''
         | Some f \<Rightarrow> if f \<noteq> [] then f else ''data.tar.gz'') = dump_path w self st"
    using False dr by (simp add: dump_path_def dump_name_def dump_dir_def)
  show ?thesis
    using assms False
    by (simp add: FileResponse_process_def dr p Let_def)
qed

lemma FileResponse_process_file:
  assumes "can_open w (dump_path w self st)"
  shows "files (snd (FileResponse_process w self r st)) (dump_path w self st)
     = Some (concat (nonempty_chunks (iter_content r 1024)))"
proof -
  let ?p = "dump_path w self st"
  let ?st2 = "f_open ?p (if uses_temp_dir self then snd (create_temp_dir w st) else st)"
  have b: "buffer ?st2 = []" by (simp add: f_open_def)
  have f: "files ?st2 ?p = Some []" by (simp add: f_open_def)
  from write_chunks_file[OF b f, of "iter_content r 1024"]
  show ?thesis
    by (simp add: FileResponse_process_unfold[OF assms] f_close_def on_disk_def)
qed

lemma FileResponse_process_trace:
  assumes "can_open w (dump_path w self st)"
  shows "trace (snd (FileResponse_process w self r st))
     = trace st @ (if uses_temp_dir self then [CreateTempDir] else [])
         @ [FOpen (dump_path w self st)]
         @ write_events (nonempty_chunks (iter_content r 1024)) @ [FClose]"
  by (simp add: FileResponse_process_unfold[OF assms] f_close_def write_chunks_trace f_open_def
      create_temp_dir_def)

lemma FileResponse_process_temp_dirs:
  assumes "can_open w (dump_path w self st)"
  shows "temp_dirs_created (snd (FileResponse_process w self r st))
     = temp_dirs_created st + (if uses_temp_dir self then 1 else 0)"
  by (simp add: FileResponse_process_unfold[OF assms] f_close_def write_chunks_temp_dirs
      f_open_def create_temp_dir_def)


lemma dump_path_trace: "dump_path w self (st\<lparr>trace := t\<rparr>) = dump_path w self st"
  by (simp add: dump_path_def dump_dir_def)

lemma stream_kept:
  "kw ''stream'' = Some x \<Longrightarrow>
   c_kwargs (SingleHostSession_request_call w s m u kw) ''stream'' = Some x"
  by (simp add: SingleHostSession_request_call_def Let_def pop_def)

lemma stream_request_call:
  assumes "strategy self = FileResponse" and "get_url w self = Inr u"
    and "kwargs ''data'' = None" and "kwargs ''files'' = None" and "kwargs ''headers'' = None"
    and "kwargs ''params'' = None" and "v3 self \<longrightarrow> kwargs ''v3_compatibilty'' = None"
    and "session self = HostSession s"
  shows "\<exists>call. request w self kwargs st =
         handle_outcome w self (send w s call) (snd (get_headers self st))
     \<and> c_kwargs call ''stream'' = Some (PBool True)"
proof -
  obtain a st1 where g: "get_headers self st = (a, st1)" by (cases "get_headers self st")
  let ?kw1 = "kwargs(''stream'' \<mapsto> PBool True)"
  let ?kw2 = "(if v3 self then ?kw1(''v3_compatibilty'' \<mapsto> PBool True) else ?kw1)"
  let ?kw = "?kw2(''data'' \<mapsto> data self,
       ''files'' \<mapsto> files_arg self, ''headers'' \<mapsto> headers_value (heap st1 a),
       ''params'' \<mapsto> params self)"
  let ?call = "SingleHostSession_request_call w s (http_method self) u ?kw"
  have r: "request w self kwargs st =
         handle_outcome w self (send w s ?call) (snd (get_headers self st))"
    using assms g
    by (simp add: request_def APIV3Request_request_def APIRequest_request_def
        session_request_def SingleHostSession_request_def request_kwargs_def Let_def)
  have "?kw ''stream'' = Some (PBool True)" by simp
  then have "c_kwargs ?call ''stream'' = Some (PBool True)" by (rule stream_kept)
  with r show ?thesis by blast
qed

lemma stream_request_plain:
  assumes "strategy self = FileResponse" and "get_url w self = Inr u"
    and "kwargs ''data'' = None" and "kwargs ''files'' = None" and "kwargs ''headers'' = None"
    and "kwargs ''params'' = None" and "kwargs ''v3_compatibilty'' = None"
    and "session self = RequestsModule" and "\<not> v3 self"
  shows "\<exists>call. request w self kwargs st =
         handle_outcome w self (send_plain w call) (snd (get_headers self st))
     \<and> c_kwargs call ''stream'' = Some (PBool True)"
proof -
  obtain a st1 where g: "get_headers self st = (a, st1)" by (cases "get_headers self st")
  let ?kw = "kwargs(''stream'' \<mapsto> PBool True, ''data'' \<mapsto> data self,
       ''files'' \<mapsto> files_arg self, ''headers'' \<mapsto> headers_value (heap st1 a),
       ''params'' \<mapsto> params self)"
  let ?call = "\<lparr>c_method = http_method self, c_url = u, c_kwargs = ?kw\<rparr>"
  have r: "request w self kwargs st =
         handle_outcome w self (send_plain w ?call) (snd (get_headers self st))"
    using assms g
    by (simp add: request_def APIRequest_request_def
        session_request_def requests_request_def request_kwargs_def Let_def)
  have "c_kwargs ?call ''stream'' = Some (PBool True)" by simp
  with r show ?thesis by blast
qed

text \<open>
  Claim C7. For a request with \<^verbatim>\<open>FileResponse\<close>, when the target file can be opened:
  \<^verbatim>\<open>process\<close> returns the path joined from the explicit directory (the directory
  \<^verbatim>\<open>create_temp_dir()\<close> makes when none is given) and the explicit file name (the default
  name when none is given); it asks the response for chunks of 1024 bytes, writes each
  non-empty chunk and flushes after each write; the file then holds the concatenation of
  the non-empty chunks in order, which is the concatenation of all chunks, and its length
  is the sum of the chunk lengths. A dispatch of such a request, with keyword arguments
  that do not collide with its own, reaches the transport with \<^verbatim>\<open>stream=True\<close>, on a
  host session and also when the \<^verbatim>\<open>requests\<close> module stands for the session (there for
  a class not derived from \<^verbatim>\<open>APIV3Request\<close>, whose extra keyword that module refuses).
\<close>

theorem file_download:
  assumes "strategy self = FileResponse" and "can_open w (dump_path w self st)"
  shows "fst (process w self r st) = Inr (RPath (dump_path w self st))
     \<and> dump_path w self st = path_join w (dump_dir w self st) (dump_name self)
     \<and> (\<forall>d. directory self = Some d \<and> d \<noteq> [] \<longrightarrow> dump_dir w self st = d)
     \<and> (directory self = None \<longrightarrow> dump_dir w self st = temp_dir_name w (temp_dirs_created st))
     \<and> (\<forall>f. filename self = Some f \<and> f \<noteq> [] \<longrightarrow> dump_name self = f)
     \<and> (filename self = None \<longrightarrow> dump_name self = ''data.tar.gz'')
     \<and> files (snd (process w self r st)) (dump_path w self st)
         = Some (concat (nonempty_chunks (iter_content r 1024)))
     \<and> concat (nonempty_chunks (iter_content r 1024)) = concat (iter_content r 1024)
     \<and> length (concat (nonempty_chunks (iter_content r 1024)))
         = sum_list (map length (iter_content r 1024))
     \<and> trace (snd (process w self r st))
         = trace st @ [CallProcess] @ (if uses_temp_dir self then [CreateTempDir] else [])
             @ [FOpen (dump_path w self st)]
             @ write_events (nonempty_chunks (iter_content r 1024)) @ [FClose]
     \<and> (\<forall>u kwargs. get_url w self = Inr u
            \<and> kwargs ''data'' = None \<and> kwargs ''files'' = None \<and> kwargs ''headers'' = None
            \<and> kwargs ''params'' = None \<and> (v3 self \<longrightarrow> kwargs ''v3_compatibilty'' = None)
          \<longrightarrow> (\<forall>s. session self = HostSession s \<longrightarrow>
                 (\<exists>call. request w self kwargs st =
                    handle_outcome w self (send w s call) (snd (get_headers self st))
                  \<and> c_kwargs call ''stream'' = Some (PBool True)))
              \<and> (session self = RequestsModule \<and> \<not> v3 self
                    \<and> kwargs ''v3_compatibilty'' = None \<longrightarrow>
                 (\<exists>call. request w self kwargs st =
                    handle_outcome w self (send_plain w call) (snd (get_headers self st))
                  \<and> c_kwargs call ''stream'' = Some (PBool True))))"
proof -
  let ?st0 = "st\<lparr>trace := trace st @ [CallProcess]\<rparr>"
  have pb: "process w self r st = FileResponse_process w self r ?st0"
    using assms(1) by (simp add: process_def process_body_def)
  have co: "can_open w (dump_path w self ?st0)"
    using assms(2) by (simp add: dump_path_trace)
  have c1: "fst (process w self r st) = Inr (RPath (dump_path w self st))"
    by (simp add: pb FileResponse_process_unfold[OF co] dump_path_trace)
  have c2: "dump_path w self st = path_join w (dump_dir w self st) (dump_name self)"
    by (simp add: dump_path_def)
  have c3: "\<forall>d. directory self = Some d \<and> d \<noteq> [] \<longrightarrow> dump_dir w self st = d"
    by (simp add: dump_dir_def uses_temp_dir_def)
  have c4: "directory self = None \<longrightarrow> dump_dir w self st = temp_dir_name w (temp_dirs_created st)"
    by (simp add: dump_dir_def uses_temp_dir_def)
  have c5: "\<forall>f. filename self = Some f \<and> f \<noteq> [] \<longrightarrow> dump_name self = f"
    by (simp add: dump_name_def)
  have c6: "filename self = None \<longrightarrow> dump_name self = ''data.tar.gz''"
    by (simp add: dump_name_def)
  have c7: "files (snd (process w self r st)) (dump_path w self st)
         = Some (concat (nonempty_chunks (iter_content r 1024)))"
    using FileResponse_process_file[OF co, of r] by (simp add: pb dump_path_trace)
  have c8: "concat (nonempty_chunks (iter_content r 1024)) = concat (iter_content r 1024)"
    by (rule concat_nonempty_chunks)
  have c9: "length (concat (nonempty_chunks (iter_content r 1024)))
         = sum_list (map length (iter_content r 1024))"
    by (simp add: c8 length_concat)
  have c10: "trace (snd (process w self r st))
         = trace st @ [CallProcess] @ (if uses_temp_dir self then [CreateTempDir] else [])
             @ [FOpen (dump_path w self st)]
             @ write_events (nonempty_chunks (iter_content r 1024)) @ [FClose]"
    using FileResponse_process_trace[OF co, of r] by (simp add: pb dump_path_trace)
  have c11: "\<forall>u kwargs. get_url w self = Inr u
            \<and> kwargs ''data'' = None \<and> kwargs ''files'' = None \<and> kwargs ''headers'' = None
            \<and> kwargs ''params'' = None \<and> (v3 self \<longrightarrow> kwargs ''v3_compatibilty'' = None)
          \<longrightarrow> (\<forall>s. session self = HostSession s \<longrightarrow>
                 (\<exists>call. request w self kwargs st =
                    handle_outcome w self (send w s call) (snd (get_headers self st))
                  \<and> c_kwargs call ''stream'' = Some (PBool True)))
              \<and> (session self = RequestsModule \<and> \<not> v3 self
                    \<and> kwargs ''v3_compatibilty'' = None \<longrightarrow>
                 (\<exists>call. request w self kwargs st =
                    handle_outcome w self (send_plain w call) (snd (get_headers self st))
                  \<and> c_kwargs call ''stream'' = Some (PBool True)))"
  proof (intro allI impI conjI)
    fix u and kwargs :: "string \<Rightarrow> pyval option" and s
    assume h: "get_url w self = Inr u
            \<and> kwargs ''data'' = None \<and> kwargs ''files'' = None \<and> kwargs ''headers'' = None
            \<and> kwargs ''params'' = None \<and> (v3 self \<longrightarrow> kwargs ''v3_compatibilty'' = None)"
      and s: "session self = HostSession s"
    from h have h1: "get_url w self = Inr u" and h2: "kwargs ''data'' = None"
      and h3: "kwargs ''files'' = None" and h4: "kwargs ''headers'' = None"
      and h5: "kwargs ''params'' = None" and h6: "v3 self \<longrightarrow> kwargs ''v3_compatibilty'' = None"
      by simp_all
    show "\<exists>call. request w self kwargs st =
                    handle_outcome w self (send w s call) (snd (get_headers self st))
                  \<and> c_kwargs call ''stream'' = Some (PBool True)"
      by (rule stream_request_call[OF assms(1) h1 h2 h3 h4 h5 h6 s])
  next
    fix u and kwargs :: "string \<Rightarrow> pyval option"
    assume h: "get_url w self = Inr u
            \<and> kwargs ''data'' = None \<and> kwargs ''files'' = None \<and> kwargs ''headers'' = None
            \<and> kwargs ''params'' = None \<and> (v3 self \<longrightarrow> kwargs ''v3_compatibilty'' = None)"
      and p: "session self = RequestsModule \<and> \<not> v3 self \<and> kwargs ''v3_compatibilty'' = None"
    from h have h1: "get_url w self = Inr u" and h2: "kwargs ''data'' = None"
      and h3: "kwargs ''files'' = None" and h4: "kwargs ''headers'' = None"
      and h5: "kwargs ''params'' = None"
      by simp_all
    from p have p1: "session self = RequestsModule" and p2: "\<not> v3 self"
      and p3: "kwargs ''v3_compatibilty'' = None" by simp_all
    show "\<exists>call. request w self kwargs st =
                    handle_outcome w self (send_plain w call) (snd (get_headers self st))
                  \<and> c_kwargs call ''stream'' = Some (PBool True)"
      by (rule stream_request_plain[OF assms(1) h1 h2 h3 h4 h5 p3 p1 p2])
  qed
  show ?thesis
    by (intro conjI c1 c2 c3 c4 c5 c6 c7 c8 c9 c10 c11)
qed


theorem file_download_witness:
  "strategy (DownloadRequest sample_world sample_session) = FileResponse
   \<and> can_open sample_world
        (dump_path sample_world (DownloadRequest sample_world sample_session)
           (initial_state sample_world))
   \<and> map length (iter_content sample_download 1024) = [1024, 0, 1024, 10]
   \<and> fst (process sample_world (DownloadRequest sample_world sample_session) sample_download
        (initial_state sample_world)) = Inr (RPath ''/tmp/tmp/data.tar.gz'')
   \<and> files (snd (process sample_world (DownloadRequest sample_world sample_session)
        sample_download (initial_state sample_world))) ''/tmp/tmp/data.tar.gz''
      = Some (replicate 1024 (CHR ''a'') @ replicate 1024 (CHR ''b'') @ replicate 10 (CHR ''c''))
   \<and> length (replicate 1024 (CHR ''a'') @ replicate 1024 (CHR ''b'') @ replicate 10 (CHR ''c''))
      = 2058
   \<and> fst (process sample_world (TargetedDownloadRequest sample_world sample_session)
        sample_download (initial_state sample_world)) = Inr (RPath ''/srv/backups/site.tar.gz'')
   \<and> trace (snd (process sample_world (TargetedDownloadRequest sample_world sample_session)
        sample_download (initial_state sample_world)))
      = [CallProcess, FOpen ''/srv/backups/site.tar.gz'',
         FWrite (replicate 1024 (CHR ''a'')), FFlush,
         FWrite (replicate 1024 (CHR ''b'')), FFlush,
         FWrite (replicate 10 (CHR ''c'')), FFlush, FClose]
   \<and> (\<exists>call. request sample_world (DownloadRequest sample_world sample_session) Map.empty
                (initial_state sample_world)
              = handle_outcome sample_world (DownloadRequest sample_world sample_session)
                  (send sample_world sample_session call)
                  (snd (get_headers (DownloadRequest sample_world sample_session)
                          (initial_state sample_world)))
        \<and> c_kwargs call ''stream'' = Some (PBool True))"
proof -
  let ?self = "DownloadRequest sample_world sample_session"
  let ?st = "initial_state sample_world"
  have h1: "strategy ?self = FileResponse"
    by (simp add: DownloadRequest_def APIRequest_def)
  have dp: "dump_path sample_world ?self ?st = ''/tmp/tmp/data.tar.gz''"
    by (simp add: dump_path_def dump_dir_def dump_name_def uses_temp_dir_def
        DownloadRequest_def APIRequest_def initial_state_def sample_world_def)
  have h2: "can_open sample_world (dump_path sample_world ?self ?st)"
    by (simp add: sample_world_def)
  have ls: "map length (iter_content sample_download 1024) = [1024, 0, 1024, 10]"
    by (simp add: sample_download_def sample_chunks_def)
  have ch: "concat (nonempty_chunks (iter_content sample_download 1024))
      = replicate 1024 (CHR ''a'') @ replicate 1024 (CHR ''b'') @ replicate 10 (CHR ''c'')"
    by (simp add: sample_download_def sample_chunks_def nonempty_chunks_def)
  have ln: "length (replicate 1024 (CHR ''a'') @ replicate 1024 (CHR ''b'')
        @ replicate 10 (CHR ''c'')) = 2058"
    by simp
  have pr: "get_url sample_world ?self = Inr ''/api/v1/download/''
      \<and> Map.empty ''data'' = (None :: pyval option)
      \<and> Map.empty ''files'' = (None :: pyval option)
      \<and> Map.empty ''headers'' = (None :: pyval option)
      \<and> Map.empty ''params'' = (None :: pyval option)
      \<and> (v3 ?self \<longrightarrow> Map.empty ''v3_compatibilty'' = (None :: pyval option))"
    by (simp add: get_url_def DownloadRequest_def APIRequest_def sample_world_def)
  note th = file_download[OF h1 h2, of sample_download]
  from th have a: "fst (process sample_world ?self sample_download ?st)
      = Inr (RPath (dump_path sample_world ?self ?st))"
    by (elim conjE) assumption
  from th have b: "files (snd (process sample_world ?self sample_download ?st))
        (dump_path sample_world ?self ?st)
      = Some (concat (nonempty_chunks (iter_content sample_download 1024)))"
    by (elim conjE) assumption
  from th have d: "\<forall>u kwargs. get_url sample_world ?self = Inr u
            \<and> kwargs ''data'' = None \<and> kwargs ''files'' = None \<and> kwargs ''headers'' = None
            \<and> kwargs ''params'' = None \<and> (v3 ?self \<longrightarrow> kwargs ''v3_compatibilty'' = None)
          \<longrightarrow> (\<forall>s. session ?self = HostSession s \<longrightarrow>
                 (\<exists>call. request sample_world ?self kwargs ?st =
                    handle_outcome sample_world ?self (send sample_world s call)
                      (snd (get_headers ?self ?st))
                  \<and> c_kwargs call ''stream'' = Some (PBool True)))
              \<and> (session ?self = RequestsModule \<and> \<not> v3 ?self
                    \<and> kwargs ''v3_compatibilty'' = None \<longrightarrow>
                 (\<exists>call. request sample_world ?self kwargs ?st =
                    handle_outcome sample_world ?self (send_plain sample_world call)
                      (snd (get_headers ?self ?st))
                  \<and> c_kwargs call ''stream'' = Some (PBool True)))"
    by (elim conjE) assumption
  have hs: "session ?self = HostSession sample_session"
    by (simp add: DownloadRequest_def APIRequest_def)
  note e = d[rule_format, OF pr, THEN conjunct1, rule_format, OF hs]
  from a have a': "fst (process sample_world ?self sample_download ?st)
      = Inr (RPath ''/tmp/tmp/data.tar.gz'')" by (simp only: dp)
  from b have b': "files (snd (process sample_world ?self sample_download ?st))
        ''/tmp/tmp/data.tar.gz''
      = Some (replicate 1024 (CHR ''a'') @ replicate 1024 (CHR ''b'') @ replicate 10 (CHR ''c''))"
    by (simp only: dp ch)
  let ?tgt = "TargetedDownloadRequest sample_world sample_session"
  have t1: "strategy ?tgt = FileResponse"
    by (simp add: TargetedDownloadRequest_def DownloadRequest_def APIRequest_def)
  have tp: "dump_path sample_world ?tgt ?st = ''/srv/backups/site.tar.gz''"
    by (simp add: dump_path_def dump_dir_def dump_name_def uses_temp_dir_def
        TargetedDownloadRequest_def DownloadRequest_def APIRequest_def sample_world_def)
  have t2: "can_open sample_world (dump_path sample_world ?tgt ?st)"
    by (simp add: sample_world_def)
  have tu: "\<not> uses_temp_dir ?tgt"
    by (simp add: uses_temp_dir_def TargetedDownloadRequest_def DownloadRequest_def
        APIRequest_def)
  have we: "write_events (nonempty_chunks (iter_content sample_download 1024))
      = [FWrite (replicate 1024 (CHR ''a'')), FFlush,
         FWrite (replicate 1024 (CHR ''b'')), FFlush,
         FWrite (replicate 10 (CHR ''c'')), FFlush]"
    by (simp add: sample_download_def sample_chunks_def nonempty_chunks_def write_events_def)
  have t0: "trace ?st = []" by (simp add: initial_state_def)
  note tt = file_download[OF t1 t2, of sample_download]
  from tt have ta: "fst (process sample_world ?tgt sample_download ?st)
      = Inr (RPath (dump_path sample_world ?tgt ?st))"
    by (elim conjE) assumption
  from tt have tb: "trace (snd (process sample_world ?tgt sample_download ?st))
         = trace ?st @ [CallProcess] @ (if uses_temp_dir ?tgt then [CreateTempDir] else [])
             @ [FOpen (dump_path sample_world ?tgt ?st)]
             @ write_events (nonempty_chunks (iter_content sample_download 1024)) @ [FClose]"
    by (elim conjE) assumption
  from ta have ta': "fst (process sample_world ?tgt sample_download ?st)
      = Inr (RPath ''/srv/backups/site.tar.gz'')" by (simp only: tp)
  from tb have tb': "trace (snd (process sample_world ?tgt sample_download ?st))
      = [CallProcess, FOpen ''/srv/backups/site.tar.gz'',
         FWrite (replicate 1024 (CHR ''a'')), FFlush,
         FWrite (replicate 1024 (CHR ''b'')), FFlush,
         FWrite (replicate 10 (CHR ''c'')), FFlush, FClose]"
    by (simp add: tp tu we t0)
  show ?thesis
    by (intro conjI h1 h2 ls a' b' ln ta' tb' e)
qed

subsection \<open>Proxies of a new session\<close>

lemma map_of_replace:
  "map_of (map (\<lambda>kv. if fst kv = k then (k, v) else kv) d) x =
     (if x = k then (case map_of d k of None \<Rightarrow> None | Some y \<Rightarrow> Some v) else map_of d x)"
  by (induction d) (auto split: option.splits)

lemma map_of_dict_set: "map_of (dict_set d k v) = (map_of d)(k \<mapsto> v)"
proof (cases "k \<in> set (map fst d)")
  case True
  then obtain y where "map_of d k = Some y"
    by (metis map_of_eq_None_iff not_None_eq set_map)
  with True show ?thesis by (simp add: dict_set_def map_of_replace fun_eq_iff)
next
  case False
  then have "map_of d k = None" by (simp add: map_of_eq_None_iff)
  then have "map_of [(k, v)] ++ map_of d = (map_of d)(k \<mapsto> v)"
    by (auto simp add: map_add_def fun_eq_iff split: option.splits)
  with False show ?thesis by (simp add: dict_set_def)
qed

lemma map_of_dict_update:
  "distinct (map fst p) \<Longrightarrow> map_of (dict_update d p) = map_of d ++ map_of p"
proof (induction p arbitrary: d)
  case Nil
  then show ?case by simp
next
  case (Cons kv rest)
  then have n: "fst kv \<notin> dom (map_of rest)" by (simp add: dom_map_of_conv_image_fst)
  have c: "map_of (kv # rest) = (map_of rest)(fst kv \<mapsto> snd kv)" by (cases kv) simp
  from Cons have "map_of (dict_update d (kv # rest))
      = (map_of d)(fst kv \<mapsto> snd kv) ++ map_of rest"
    by (simp add: map_of_dict_set)
  also have "\<dots> = (map_of d ++ map_of rest)(fst kv \<mapsto> snd kv)"
    using n by (rule map_add_upd_left)
  also have "\<dots> = map_of d ++ map_of (kv # rest)"
    unfolding c by (rule map_add_upd[symmetric])
  finally show ?case .
qed

lemma map_of_env_proxies: "map_of (env_proxies environ) k = environ_proxy environ k"
  by (simp add: env_proxies_def environ_proxy_def dict_set_def Let_def split: option.splits)

lemma env_proxies_empty:
  "env_proxies environ = [] \<Longrightarrow> environ_proxy environ k = None"
  using map_of_env_proxies[of environ k] by simp

text \<open>
  Claim C8. The proxy a new session has for a key is the caller's entry for that key when
  the caller gave one, and the value of the process environment otherwise
  (\<^verbatim>\<open>HTTP_PROXY\<close> for \<open>http\<close>, \<^verbatim>\<open>HTTPS_PROXY\<close> for \<open>https\<close>); without an explicit
  proxy map the session has exactly the proxies of the environment. The caller's map is a
  dictionary: its keys are distinct.
\<close>

theorem proxy_resolution:
  assumes "\<forall>p. kw_proxies kwargs = Some p \<longrightarrow> distinct (map fst p)"
  shows "map_of (proxies (SingleHostSession_init environ h kwargs)) k =
     (case (case kw_proxies kwargs of None \<Rightarrow> None | Some p \<Rightarrow> map_of p k) of
        Some v \<Rightarrow> Some v
      | None \<Rightarrow> environ_proxy environ k)"
proof (cases "kw_proxies kwargs")
  case None
  then show ?thesis
    by (simp add: SingleHostSession_init_def Let_def map_of_env_proxies env_proxies_empty)
next
  case (Some p)
  with assms have d: "distinct (map fst p)" by simp
  show ?thesis
  proof (cases "env_proxies environ = []")
    case True
    with Some show ?thesis
      by (simp add: SingleHostSession_init_def Let_def env_proxies_empty split: option.splits)
  next
    case False
    with Some show ?thesis
      by (simp add: SingleHostSession_init_def Let_def map_of_dict_update[OF d] map_add_def
          map_of_env_proxies split: option.splits)
  qed
qed

theorem proxy_resolution_witness:
  "map_of (proxies (SingleHostSession_init sample_environ ''https://control.example.com''
       \<lparr>kw_debug = None, kw_proxies = None, kw_other = Map.empty\<rparr>)) ''http''
     = Some ''http://proxy.example.com:3128''
   \<and> map_of (proxies (SingleHostSession_init sample_environ ''https://control.example.com''
       \<lparr>kw_debug = None, kw_proxies = None, kw_other = Map.empty\<rparr>)) ''https''
     = Some ''http://proxy.example.com:3129''
   \<and> distinct (map fst [(''https'', ''http://other.example.com:8080'')])
   \<and> map_of (proxies (SingleHostSession_init sample_environ ''https://control.example.com''
       \<lparr>kw_debug = None, kw_proxies = Some [(''https'', ''http://other.example.com:8080'')],
        kw_other = Map.empty\<rparr>)) ''http''
     = Some ''http://proxy.example.com:3128''
   \<and> map_of (proxies (SingleHostSession_init sample_environ ''https://control.example.com''
       \<lparr>kw_debug = None, kw_proxies = Some [(''https'', ''http://other.example.com:8080'')],
        kw_other = Map.empty\<rparr>)) ''https''
     = Some ''http://other.example.com:8080''"
proof -
  let ?k0 = "\<lparr>kw_debug = None, kw_proxies = None, kw_other = Map.empty\<rparr>"
  let ?k1 = "\<lparr>kw_debug = None, kw_proxies = Some [(''https'', ''http://other.example.com:8080'')],
        kw_other = Map.empty\<rparr>"
  have h0: "\<forall>p. kw_proxies ?k0 = Some p \<longrightarrow> distinct (map fst p)" by simp
  have h1: "\<forall>p. kw_proxies ?k1 = Some p \<longrightarrow> distinct (map fst p)" by simp
  have e: "environ_proxy sample_environ ''http'' = Some ''http://proxy.example.com:3128''"
    "environ_proxy sample_environ ''https'' = Some ''http://proxy.example.com:3129''"
    by (simp_all add: environ_proxy_def sample_environ_def)
  have a: "map_of (proxies (SingleHostSession_init sample_environ ''https://control.example.com''
       ?k0)) ''http'' = Some ''http://proxy.example.com:3128''"
    using proxy_resolution[OF h0, of sample_environ "''https://control.example.com''" "''http''"]
    by (simp add: e)
  have b: "map_of (proxies (SingleHostSession_init sample_environ ''https://control.example.com''
       ?k0)) ''https'' = Some ''http://proxy.example.com:3129''"
    using proxy_resolution[OF h0, of sample_environ "''https://control.example.com''" "''https''"]
    by (simp add: e)
  have c: "map_of (proxies (SingleHostSession_init sample_environ ''https://control.example.com''
       ?k1)) ''http'' = Some ''http://proxy.example.com:3128''"
    using proxy_resolution[OF h1, of sample_environ "''https://control.example.com''" "''http''"]
    by (simp add: e)
  have d: "map_of (proxies (SingleHostSession_init sample_environ ''https://control.example.com''
       ?k1)) ''https'' = Some ''http://other.example.com:8080''"
    using proxy_resolution[OF h1, of sample_environ "''https://control.example.com''" "''https''"]
    by simp
  have di: "distinct (map fst [(''https'', ''http://other.example.com:8080'')])" by simp
  show ?thesis by (intro conjI a b di c d)
qed

subsection \<open>Headers of a request\<close>

lemma get_headers_result:
  "fst (get_headers self st) = next_addr st
   \<and> next_addr (snd (get_headers self st)) = Suc (next_addr st)
   \<and> heap (snd (get_headers self st)) =
       (heap st)(next_addr st :=
          dict_update (heap st (default_headers self))
            (if headers self = next_addr st then heap st (default_headers self)
             else heap st (headers self)))"
  by (simp add: get_headers_def Let_def)

lemma get_headers_frame:
  "b < next_addr st \<Longrightarrow> heap (snd (get_headers self st)) b = heap st b"
  by (simp add: get_headers_result)

lemma get_headers_value:
  "headers self < next_addr st \<Longrightarrow>
   heap (snd (get_headers self st)) (fst (get_headers self st))
     = dict_update (heap st (default_headers self)) (heap st (headers self))"
  by (simp add: get_headers_result)

lemma run_ops_invariant:
  "c < n0 \<Longrightarrow> n0 \<le> next_addr st \<Longrightarrow> distinct rs \<Longrightarrow>
   (\<forall>a \<in> set rs. n0 \<le> a \<and> a < next_addr st) \<Longrightarrow>
   heap (snd (run_ops self ops rs st)) c = heap st c
   \<and> distinct (fst (run_ops self ops rs st))
   \<and> (\<forall>a \<in> set (fst (run_ops self ops rs st)). n0 \<le> a)"
proof (induction self ops rs st rule: run_ops.induct)
  case (1 self rs st)
  then show ?case by simp
next
  case (2 self ops rs st)
  let ?a = "fst (get_headers self st)"
  let ?st = "snd (get_headers self st)"
  have a: "?a = next_addr st" and n: "next_addr ?st = Suc (next_addr st)"
    by (simp_all add: get_headers_result)
  have d: "distinct (rs @ [?a])" using "2.prems" a by auto
  have b: "\<forall>x \<in> set (rs @ [?a]). n0 \<le> x \<and> x < next_addr ?st"
    using "2.prems" a n by auto
  have le: "n0 \<le> next_addr ?st" using "2.prems" n by simp
  have f: "heap ?st c = heap st c"
    using "2.prems" by (simp add: get_headers_frame)
  from "2.IH"[OF "2.prems"(1) le d b] f show ?case by simp
next
  case (3 self i d ops rs st)
  show ?case
  proof (cases "i < length rs")
    case True
    let ?st = "st\<lparr>heap := (heap st)(rs ! i := d)\<rparr>"
    from True "3.prems" have "n0 \<le> rs ! i" by simp
    with "3.prems" have f: "heap ?st c = heap st c" by simp
    have b: "\<forall>a \<in> set rs. n0 \<le> a \<and> a < next_addr ?st" using "3.prems" by simp
    have le: "n0 \<le> next_addr ?st" using "3.prems" by simp
    from "3.IH"(1)[OF True "3.prems"(1) le "3.prems"(3) b] f True show ?thesis by simp
  next
    case False
    with "3.IH"(2)[OF False "3.prems"] show ?thesis by simp
  qed
qed


text \<open>
  Claim C9. In a state where the two class-level header dictionaries are allocated,
  \<^verbatim>\<open>get_headers\<close> returns the next free address, which is neither of theirs and was not
  allocated before; the mapping there is the default headers updated with the
  per-definition headers, so it gives each key the per-definition value when there is
  one and the default value otherwise; every dictionary allocated before the call is
  unchanged. After any sequence of calls of \<^verbatim>\<open>get_headers\<close> and mutations of the
  mappings it returned, both class-level dictionaries are as they were, and the returned
  addresses are pairwise different and all new.
\<close>

theorem get_headers_fresh_copy:
  assumes "default_headers self < next_addr st" and "headers self < next_addr st"
  shows "fst (get_headers self st) = next_addr st
     \<and> fst (get_headers self st) \<noteq> default_headers self
     \<and> fst (get_headers self st) \<noteq> headers self
     \<and> heap (snd (get_headers self st)) (fst (get_headers self st))
         = dict_update (heap st (default_headers self)) (heap st (headers self))
     \<and> (distinct (map fst (heap st (headers self))) \<longrightarrow>
          (\<forall>k. map_of (heap (snd (get_headers self st)) (fst (get_headers self st))) k
             = (case map_of (heap st (headers self)) k of
                  Some v \<Rightarrow> Some v
                | None \<Rightarrow> map_of (heap st (default_headers self)) k)))
     \<and> (\<forall>b. b < next_addr st \<longrightarrow> heap (snd (get_headers self st)) b = heap st b)
     \<and> (\<forall>ops. heap (snd (run_ops self ops [] st)) (default_headers self)
                 = heap st (default_headers self)
              \<and> heap (snd (run_ops self ops [] st)) (headers self) = heap st (headers self)
              \<and> distinct (fst (run_ops self ops [] st))
              \<and> (\<forall>a \<in> set (fst (run_ops self ops [] st)). next_addr st \<le> a))"
proof -
  have c1: "fst (get_headers self st) = next_addr st" by (simp add: get_headers_result)
  have c2: "fst (get_headers self st) \<noteq> default_headers self" using assms(1) c1 by simp
  have c3: "fst (get_headers self st) \<noteq> headers self" using assms(2) c1 by simp
  have c4: "heap (snd (get_headers self st)) (fst (get_headers self st))
         = dict_update (heap st (default_headers self)) (heap st (headers self))"
    using assms(2) by (rule get_headers_value)
  have c5: "distinct (map fst (heap st (headers self))) \<longrightarrow>
          (\<forall>k. map_of (heap (snd (get_headers self st)) (fst (get_headers self st))) k
             = (case map_of (heap st (headers self)) k of
                  Some v \<Rightarrow> Some v
                | None \<Rightarrow> map_of (heap st (default_headers self)) k))"
    by (simp add: c4 map_of_dict_update map_add_def split: option.splits)
  have c6: "\<forall>b. b < next_addr st \<longrightarrow> heap (snd (get_headers self st)) b = heap st b"
    by (simp add: get_headers_frame)
  have c7: "\<forall>ops. heap (snd (run_ops self ops [] st)) (default_headers self)
                 = heap st (default_headers self)
              \<and> heap (snd (run_ops self ops [] st)) (headers self) = heap st (headers self)
              \<and> distinct (fst (run_ops self ops [] st))
              \<and> (\<forall>a \<in> set (fst (run_ops self ops [] st)). next_addr st \<le> a)"
  proof
    fix ops
    have e: "\<forall>a \<in> set []. next_addr st \<le> a \<and> a < next_addr st" by simp
    have dn: "distinct ([] :: nat list)" by simp
    from run_ops_invariant[OF assms(1) le_refl dn e, of self ops]
      run_ops_invariant[OF assms(2) le_refl dn e, of self ops]
    show "heap (snd (run_ops self ops [] st)) (default_headers self)
                 = heap st (default_headers self)
              \<and> heap (snd (run_ops self ops [] st)) (headers self) = heap st (headers self)
              \<and> distinct (fst (run_ops self ops [] st))
              \<and> (\<forall>a \<in> set (fst (run_ops self ops [] st)). next_addr st \<le> a)"
      by simp
  qed
  show ?thesis by (intro conjI c1 c2 c3 c4 c5 c6 c7)
qed

theorem get_headers_fresh_copy_witness:
  "default_headers (ProjectListRequest sample_world sample_session)
     < next_addr (initial_state sample_world)
   \<and> headers (ProjectListRequest sample_world sample_session)
     < next_addr (initial_state sample_world)
   \<and> fst (get_headers (ProjectListRequest sample_world sample_session)
        (initial_state sample_world)) = 2
   \<and> heap (snd (get_headers (ProjectListRequest sample_world sample_session)
        (initial_state sample_world))) 2 = [(''User-Agent'', ''divio-cli'')]
   \<and> heap (snd (run_ops (ProjectListRequest sample_world sample_session) sample_ops []
        (initial_state sample_world))) 0 = [(''User-Agent'', ''divio-cli'')]
   \<and> heap (snd (run_ops (ProjectListRequest sample_world sample_session) sample_ops []
        (initial_state sample_world))) 1 = []
   \<and> fst (run_ops (ProjectListRequest sample_world sample_session) sample_ops []
        (initial_state sample_world)) = [2, 3]
   \<and> heap (snd (run_ops (ProjectListRequest sample_world sample_session) sample_ops []
        (initial_state sample_world))) 2 = [(''User-Agent'', ''changed'')]"
proof -
  let ?self = "ProjectListRequest sample_world sample_session"
  let ?st = "initial_state sample_world"
  have dh: "default_headers ?self = 0" and hh: "headers ?self = 1"
    by (simp_all add: ProjectListRequest_def APIRequest_def)
  have na: "next_addr ?st = 2" by (simp add: initial_state_def)
  have h0: "heap ?st 0 = [(''User-Agent'', ''divio-cli'')]" and h1: "heap ?st 1 = []"
    and h1': "heap ?st (Suc 0) = []"
    by (simp_all add: initial_state_def sample_world_def)
  have p1: "default_headers ?self < next_addr ?st" by (simp add: dh na)
  have p2: "headers ?self < next_addr ?st" by (simp add: hh na)
  note th = get_headers_fresh_copy[OF p1 p2]
  from th have a: "fst (get_headers ?self ?st) = next_addr ?st"
    by (elim conjE) assumption
  from th have b: "heap (snd (get_headers ?self ?st)) (fst (get_headers ?self ?st))
         = dict_update (heap ?st (default_headers ?self)) (heap ?st (headers ?self))"
    by (elim conjE) assumption
  from th have c: "\<forall>ops. heap (snd (run_ops ?self ops [] ?st)) (default_headers ?self)
                 = heap ?st (default_headers ?self)
              \<and> heap (snd (run_ops ?self ops [] ?st)) (headers ?self) = heap ?st (headers ?self)
              \<and> distinct (fst (run_ops ?self ops [] ?st))
              \<and> (\<forall>a \<in> set (fst (run_ops ?self ops [] ?st)). next_addr ?st \<le> a)"
    by (elim conjE) assumption
  from a have a': "fst (get_headers ?self ?st) = 2" by (simp only: na)
  from b have b': "heap (snd (get_headers ?self ?st)) 2 = [(''User-Agent'', ''divio-cli'')]"
    by (simp add: a' dh hh h0 h1')
  from c[rule_format, of sample_ops]
  have c0: "heap (snd (run_ops ?self sample_ops [] ?st)) 0 = [(''User-Agent'', ''divio-cli'')]"
    and c1: "heap (snd (run_ops ?self sample_ops [] ?st)) 1 = []"
    by (simp_all add: dh hh h0 h1')
  have d: "fst (run_ops ?self sample_ops [] ?st) = [2, 3]"
    by (simp add: sample_ops_def get_headers_def Let_def ProjectListRequest_def APIRequest_def
        initial_state_def sample_world_def)
  have e: "heap (snd (run_ops ?self sample_ops [] ?st)) 2 = [(''User-Agent'', ''changed'')]"
    by (simp add: sample_ops_def get_headers_def Let_def ProjectListRequest_def APIRequest_def
        initial_state_def sample_world_def)
  show ?thesis by (intro conjI p1 p2 a' b' c0 c1 d e)
qed

end
